theory Spec2Isabelle
  imports Main "HOL-Library.Sublist"
begin

section \<open>Chart definitions of the postgres collector (modules/postgres/charts.go)\<close>

text \<open>
  The file declares 32 priority constants, 18 server-wide charts (\<open>baseCharts\<close>), 14 chart
  templates per database (\<open>dbChartsTmpl\<close>) and three functions: \<open>newDatabaseCharts\<close>,
  \<open>addNewDatabaseCharts\<close> and \<open>removeDatabaseCharts\<close>.

  A \<open>module.Charts\<close> value is a slice of pointers to charts, and a chart's \<open>Dims\<close> is a slice
  of pointers to dimensions: the functions write through these pointers. The model therefore
  keeps an explicit store: a heap of chart objects and a heap of dimension objects, both
  addressed by position, and the slices are lists of addresses.
\<close>

subsection \<open>Data of package \<open>module\<close>\<close>

type_synonym ref = nat

text \<open>
  Modelled from the spec: the declarations of \<open>module.Chart\<close>, \<open>module.Dim\<close>,
  \<open>module.Label\<close> and of the constants \<open>module.Area\<close>, \<open>module.Stacked\<close> and
  \<open>module.Incremental\<close> are in package \<open>agent/module\<close>, which is not among the sources. The
  spec gives a chart an "id, title, units, family, context, priority, render type, ordered
  list of dimensions each with an id/name/algorithm"; the labels and the two marks are the
  fields that \<open>newDatabaseCharts\<close> and \<open>removeDatabaseCharts\<close> write. A field that a composite
  literal of the source omits has Go's zero value: \<open>ChartType_zero\<close>, \<open>DimAlgo_zero\<close>, the
  empty string, the empty slice, \<open>False\<close>.
\<close>

datatype ChartType = ChartType_zero | Area | Stacked

datatype DimAlgo = DimAlgo_zero | Incremental

record Label =
  Key :: string
  Value :: string

record Dim =
  ID :: string
  Name :: string
  Algo :: DimAlgo

text \<open>
  The chart record is polymorphic in what \<open>Dims\<close> holds: \<open>ref Chart\<close> is a chart as Go
  stores it (a slice of pointers), \<open>Dim Chart\<close> is a chart with its dimensions read out of
  the store, which is also how the composite literals of the source are written down.
\<close>

record 'd Chart =
  ID :: string
  Title :: string
  Units :: string
  Fam :: string
  Ctx :: string
  Type :: ChartType
  Priority :: int
  Labels :: "Label list"
  Dims :: "'d list"
  remove :: bool
  created :: bool

definition Dim_zero :: Dim where
  "Dim_zero = \<lparr>Dim.ID = [], Name = [], Algo = DimAlgo_zero\<rparr>"

definition Chart_zero :: "'d Chart" where
  "Chart_zero = \<lparr>Chart.ID = [], Title = [], Units = [], Fam = [], Ctx = [],
     Type = ChartType_zero, Priority = 0, Labels = [], Dims = [],
     remove = False, created = False\<rparr>"

subsection \<open>The two standard-library functions the file calls\<close>

text \<open>
  \<open>fmt.Sprintf(format, a...)\<close> for string operands, following \<open>doPrintf\<close> of Go's \<open>fmt\<close>:
  bytes other than \<open>%\<close> are copied; \<open>%%\<close> prints a percent sign; \<open>%s\<close> and \<open>%v\<close> print the
  next operand, or \<open>%!s(MISSING)\<close> when none is left; a \<open>%\<close> that ends the format prints
  \<open>%!(NOVERB)\<close>; any other verb character \<open>c\<close> consumes an operand and prints
  \<open>%!c(string=...)\<close>; operands left over at the end print \<open>%!(EXTRA string=..., ...)\<close>.
  Flags, widths, precisions, argument indexes and the verbs \<open>q x X T p\<close> are not modelled:
  every format of this file has the single directive \<open>%s\<close>. The operands are never scanned
  for directives.
\<close>

fun extraArgs :: "string list \<Rightarrow> string" where
  "extraArgs [] = []"
| "extraArgs [a] = ''string='' @ a"
| "extraArgs (a # as) = ''string='' @ a @ '', '' @ extraArgs as"

fun doPrintf :: "string \<Rightarrow> string list \<Rightarrow> string" where
  "doPrintf [] args = (if args = [] then [] else ''%!(EXTRA '' @ extraArgs args @ '')'')"
| "doPrintf (c # fs) args =
     (if c \<noteq> CHR ''%'' then c # doPrintf fs args
      else (case fs of
              [] \<Rightarrow> ''%!(NOVERB)'' @ doPrintf [] args
            | v # rest \<Rightarrow>
                if v = CHR ''%'' then CHR ''%'' # doPrintf rest args
                else (case args of
                        [] \<Rightarrow> ''%!'' @ [v] @ ''(MISSING)'' @ doPrintf rest []
                      | a # as \<Rightarrow>
                          (if v = CHR ''s'' \<or> v = CHR ''v'' then a
                           else ''%!'' @ [v] @ ''(string='' @ a @ '')'') @ doPrintf rest as)))"

definition Sprintf :: "string \<Rightarrow> string list \<Rightarrow> string" where
  "Sprintf format a = doPrintf format a"

text \<open>\<open>strings.HasPrefix\<close>, as Go defines it:
  \<open>len(s) >= len(prefix) && s[0:len(prefix)] == prefix\<close>.\<close>

definition HasPrefix :: "string \<Rightarrow> string \<Rightarrow> bool" where
  "HasPrefix s pre = (length pre \<le> length s \<and> take (length pre) s = pre)"

subsection \<open>Priorities\<close>

text \<open>
  The constant block is \<open>prioConnectionsUtilization = module.Priority + iota\<close> followed by 31
  names that repeat the expression, so the k-th name is \<open>module.Priority + k\<close>.
  \<open>module.Priority\<close> is declared in package \<open>agent/module\<close>, which is not among the sources:
  it is the parameter \<open>P\<close> of every definition below. Constant arithmetic in Go is exact
  (a typed constant that overflows is a compile error), hence \<open>int\<close>.
\<close>

definition prioConnectionsUtilization :: "int \<Rightarrow> int" where
  "prioConnectionsUtilization P = P + 0"

definition prioConnectionsUsage :: "int \<Rightarrow> int" where
  "prioConnectionsUsage P = P + 1"

definition prioCheckpoints :: "int \<Rightarrow> int" where
  "prioCheckpoints P = P + 2"

definition prioCheckpointTime :: "int \<Rightarrow> int" where
  "prioCheckpointTime P = P + 3"

definition prioBGWriterBuffersAllocated :: "int \<Rightarrow> int" where
  "prioBGWriterBuffersAllocated P = P + 4"

definition prioBGWriterBuffersWritten :: "int \<Rightarrow> int" where
  "prioBGWriterBuffersWritten P = P + 5"

definition prioBGWriterMaxWrittenClean :: "int \<Rightarrow> int" where
  "prioBGWriterMaxWrittenClean P = P + 6"

definition prioBGWriterBackedFsync :: "int \<Rightarrow> int" where
  "prioBGWriterBackedFsync P = P + 7"

definition prioWALWrites :: "int \<Rightarrow> int" where
  "prioWALWrites P = P + 8"

definition prioWALFiles :: "int \<Rightarrow> int" where
  "prioWALFiles P = P + 9"

definition prioWALArchive :: "int \<Rightarrow> int" where
  "prioWALArchive P = P + 10"

definition prioAutovacuumWorkers :: "int \<Rightarrow> int" where
  "prioAutovacuumWorkers P = P + 11"

definition prioAutovacuumPercentTowards :: "int \<Rightarrow> int" where
  "prioAutovacuumPercentTowards P = P + 12"

definition prioTXIDWraparoundPercentTowards :: "int \<Rightarrow> int" where
  "prioTXIDWraparoundPercentTowards P = P + 13"

definition prioTXIDWraparoundOldestTXID :: "int \<Rightarrow> int" where
  "prioTXIDWraparoundOldestTXID P = P + 14"

definition prioCatalogRelationCount :: "int \<Rightarrow> int" where
  "prioCatalogRelationCount P = P + 15"

definition prioCatalogRelationSize :: "int \<Rightarrow> int" where
  "prioCatalogRelationSize P = P + 16"

definition prioUptime :: "int \<Rightarrow> int" where
  "prioUptime P = P + 17"

definition prioDBTransactions :: "int \<Rightarrow> int" where
  "prioDBTransactions P = P + 18"

definition prioDBConnectionsUtilization :: "int \<Rightarrow> int" where
  "prioDBConnectionsUtilization P = P + 19"

definition prioDBConnections :: "int \<Rightarrow> int" where
  "prioDBConnections P = P + 20"

definition prioDBBufferCache :: "int \<Rightarrow> int" where
  "prioDBBufferCache P = P + 21"

definition prioDBReadOperations :: "int \<Rightarrow> int" where
  "prioDBReadOperations P = P + 22"

definition prioDBWriteOperations :: "int \<Rightarrow> int" where
  "prioDBWriteOperations P = P + 23"

definition prioDBConflicts :: "int \<Rightarrow> int" where
  "prioDBConflicts P = P + 24"

definition prioDBConflictsStat :: "int \<Rightarrow> int" where
  "prioDBConflictsStat P = P + 25"

definition prioDBDeadlocks :: "int \<Rightarrow> int" where
  "prioDBDeadlocks P = P + 26"

definition prioDBLocksHeld :: "int \<Rightarrow> int" where
  "prioDBLocksHeld P = P + 27"

definition prioDBLocksAwaited :: "int \<Rightarrow> int" where
  "prioDBLocksAwaited P = P + 28"

definition prioDBTempFiles :: "int \<Rightarrow> int" where
  "prioDBTempFiles P = P + 29"

definition prioDBTempFilesData :: "int \<Rightarrow> int" where
  "prioDBTempFilesData P = P + 30"

definition prioDBSize :: "int \<Rightarrow> int" where
  "prioDBSize P = P + 31"

subsection \<open>The chart values\<close>

text \<open>The composite literals of the source, each over \<open>Chart_zero\<close> and \<open>Dim_zero\<close> for
  the fields it omits.\<close>

definition serverConnectionsUtilizationChart :: "int \<Rightarrow> Dim Chart" where
  "serverConnectionsUtilizationChart P = Chart_zero\<lparr>
     Chart.ID := ''connections_utilization'',
     Title := ''Connections utilization'',
     Units := ''percentage'',
     Fam := ''connections'',
     Ctx := ''postgres.connections_utilization'',
     Priority := prioConnectionsUtilization P,
     Dims := [
       Dim_zero\<lparr>Dim.ID := ''server_connections_utilization'', Name := ''used''\<rparr>]\<rparr>"

definition serverConnectionsUsageChart :: "int \<Rightarrow> Dim Chart" where
  "serverConnectionsUsageChart P = Chart_zero\<lparr>
     Chart.ID := ''connections_usage'',
     Title := ''Connections usage'',
     Units := ''connections'',
     Fam := ''connections'',
     Ctx := ''postgres.connections_usage'',
     Priority := prioConnectionsUsage P,
     Type := Stacked,
     Dims := [
       Dim_zero\<lparr>Dim.ID := ''server_connections_available'', Name := ''available''\<rparr>,
       Dim_zero\<lparr>Dim.ID := ''server_connections_used'', Name := ''used''\<rparr>]\<rparr>"

definition checkpointsChart :: "int \<Rightarrow> Dim Chart" where
  "checkpointsChart P = Chart_zero\<lparr>
     Chart.ID := ''checkpoints'',
     Title := ''Checkpoints'',
     Units := ''checkpoints/s'',
     Fam := ''checkpointer'',
     Ctx := ''postgres.checkpoints'',
     Priority := prioCheckpoints P,
     Type := Stacked,
     Dims := [
       Dim_zero\<lparr>Dim.ID := ''checkpoints_timed'', Name := ''scheduled'', Algo := Incremental\<rparr>,
       Dim_zero\<lparr>Dim.ID := ''checkpoints_req'', Name := ''requested'', Algo := Incremental\<rparr>]\<rparr>"

definition checkpointWriteChart :: "int \<Rightarrow> Dim Chart" where
  "checkpointWriteChart P = Chart_zero\<lparr>
     Chart.ID := ''checkpoint_time'',
     Title := ''Checkpoint time'',
     Units := ''milliseconds'',
     Fam := ''checkpointer'',
     Ctx := ''postgres.checkpoint_time'',
     Priority := prioCheckpointTime P,
     Dims := [
       Dim_zero\<lparr>Dim.ID := ''checkpoint_write_time'', Name := ''write'', Algo := Incremental\<rparr>,
       Dim_zero\<lparr>Dim.ID := ''checkpoint_sync_time'', Name := ''sync'', Algo := Incremental\<rparr>]\<rparr>"

definition bgWriterBuffersAllocChart :: "int \<Rightarrow> Dim Chart" where
  "bgWriterBuffersAllocChart P = Chart_zero\<lparr>
     Chart.ID := ''bgwriter_buffers_alloc'',
     Title := ''Background writer buffers allocated'',
     Units := ''B/s'',
     Fam := ''background writer'',
     Ctx := ''postgres.bgwriter_buffers_alloc'',
     Priority := prioBGWriterBuffersAllocated P,
     Dims := [
       Dim_zero\<lparr>Dim.ID := ''buffers_alloc'', Name := ''allocated'', Algo := Incremental\<rparr>]\<rparr>"

definition bgWriterBuffersWrittenChart :: "int \<Rightarrow> Dim Chart" where
  "bgWriterBuffersWrittenChart P = Chart_zero\<lparr>
     Chart.ID := ''bgwriter_buffers_written'',
     Title := ''Background writer buffers written'',
     Units := ''B/s'',
     Fam := ''background writer'',
     Ctx := ''postgres.bgwriter_buffers_written'',
     Priority := prioBGWriterBuffersWritten P,
     Type := Area,
     Dims := [
       Dim_zero\<lparr>Dim.ID := ''buffers_checkpoint'', Name := ''checkpoint'', Algo := Incremental\<rparr>,
       Dim_zero\<lparr>Dim.ID := ''buffers_backend'', Name := ''backend'', Algo := Incremental\<rparr>,
       Dim_zero\<lparr>Dim.ID := ''buffers_clean'', Name := ''clean'', Algo := Incremental\<rparr>]\<rparr>"

definition bgWriterMaxWrittenCleanChart :: "int \<Rightarrow> Dim Chart" where
  "bgWriterMaxWrittenCleanChart P = Chart_zero\<lparr>
     Chart.ID := ''bgwriter_maxwritten_clean'',
     Title := ''Background writer cleaning scan stops'',
     Units := ''events/s'',
     Fam := ''background writer'',
     Ctx := ''postgres.bgwriter_maxwritten_clean'',
     Priority := prioBGWriterMaxWrittenClean P,
     Dims := [
       Dim_zero\<lparr>Dim.ID := ''maxwritten_clean'', Name := ''maxwritten'', Algo := Incremental\<rparr>]\<rparr>"

definition bgWriterBuffersBackendFsyncChart :: "int \<Rightarrow> Dim Chart" where
  "bgWriterBuffersBackendFsyncChart P = Chart_zero\<lparr>
     Chart.ID := ''bgwriter_buffers_backend_fsync'',
     Title := ''Backend fsync'',
     Units := ''operations/s'',
     Fam := ''background writer'',
     Ctx := ''postgres.bgwriter_buffers_backend_fsync'',
     Priority := prioBGWriterBackedFsync P,
     Dims := [
       Dim_zero\<lparr>Dim.ID := ''buffers_backend_fsync'', Name := ''fsync'', Algo := Incremental\<rparr>]\<rparr>"

definition walWritesChart :: "int \<Rightarrow> Dim Chart" where
  "walWritesChart P = Chart_zero\<lparr>
     Chart.ID := ''wal_writes'',
     Title := ''Write-Ahead Log'',
     Units := ''B/s'',
     Fam := ''wal'',
     Ctx := ''postgres.wal_writes'',
     Priority := prioWALWrites P,
     Dims := [
       Dim_zero\<lparr>Dim.ID := ''wal_writes'', Name := ''writes'', Algo := Incremental\<rparr>]\<rparr>"

definition walFilesChart :: "int \<Rightarrow> Dim Chart" where
  "walFilesChart P = Chart_zero\<lparr>
     Chart.ID := ''wal_files'',
     Title := ''Write-Ahead Log files'',
     Units := ''files'',
     Fam := ''wal'',
     Ctx := ''postgres.wal_files'',
     Priority := prioWALFiles P,
     Type := Stacked,
     Dims := [
       Dim_zero\<lparr>Dim.ID := ''wal_written_files'', Name := ''written''\<rparr>,
       Dim_zero\<lparr>Dim.ID := ''wal_recycled_files'', Name := ''recycled''\<rparr>]\<rparr>"

definition walArchiveFilesChart :: "int \<Rightarrow> Dim Chart" where
  "walArchiveFilesChart P = Chart_zero\<lparr>
     Chart.ID := ''wal_archive_files'',
     Title := ''Write-Ahead Log archive files'',
     Units := ''files/s'',
     Fam := ''wal archive'',
     Ctx := ''postgres.wal_archive_files'',
     Priority := prioWALArchive P,
     Type := Stacked,
     Dims := [
       Dim_zero\<lparr>Dim.ID := ''wal_archive_files_ready_count'', Name := ''ready'', Algo := Incremental\<rparr>,
       Dim_zero\<lparr>Dim.ID := ''wal_archive_files_done_count'', Name := ''done'', Algo := Incremental\<rparr>]\<rparr>"

definition autovacuumWorkersChart :: "int \<Rightarrow> Dim Chart" where
  "autovacuumWorkersChart P = Chart_zero\<lparr>
     Chart.ID := ''autovacuum_workers'',
     Title := ''Autovacuum workers'',
     Units := ''workers'',
     Fam := ''autovacuum'',
     Ctx := ''postgres.autovacuum_workers'',
     Priority := prioAutovacuumWorkers P,
     Dims := [
       Dim_zero\<lparr>Dim.ID := ''autovacuum_analyze'', Name := ''analyze''\<rparr>,
       Dim_zero\<lparr>Dim.ID := ''autovacuum_vacuum_analyze'', Name := ''vacuum_analyze''\<rparr>,
       Dim_zero\<lparr>Dim.ID := ''autovacuum_vacuum'', Name := ''vacuum''\<rparr>,
       Dim_zero\<lparr>Dim.ID := ''autovacuum_vacuum_freeze'', Name := ''vacuum_freeze''\<rparr>,
       Dim_zero\<lparr>Dim.ID := ''autovacuum_brin_summarize'', Name := ''brin_summarize''\<rparr>]\<rparr>"

definition percentTowardsEmergencyAutovacuumChart :: "int \<Rightarrow> Dim Chart" where
  "percentTowardsEmergencyAutovacuumChart P = Chart_zero\<lparr>
     Chart.ID := ''percent_towards_emergency_autovacuum'',
     Title := ''Percent towards emergency autovacuum'',
     Units := ''percentage'',
     Fam := ''autovacuum'',
     Ctx := ''postgres.percent_towards_emergency_autovacuum'',
     Priority := prioAutovacuumPercentTowards P,
     Dims := [
       Dim_zero\<lparr>Dim.ID := ''percent_towards_emergency_autovacuum'', Name := ''emergency_autovacuum''\<rparr>]\<rparr>"

definition percentTowardTXIDWraparoundChart :: "int \<Rightarrow> Dim Chart" where
  "percentTowardTXIDWraparoundChart P = Chart_zero\<lparr>
     Chart.ID := ''percent_towards_txid_wraparound'',
     Title := ''Percent towards transaction ID wraparound'',
     Units := ''percentage'',
     Fam := ''txid wraparound'',
     Ctx := ''postgres.percent_towards_txid_wraparound'',
     Priority := prioTXIDWraparoundPercentTowards P,
     Dims := [
       Dim_zero\<lparr>Dim.ID := ''percent_towards_wraparound'', Name := ''txid_wraparound''\<rparr>]\<rparr>"

definition oldestTXIDChart :: "int \<Rightarrow> Dim Chart" where
  "oldestTXIDChart P = Chart_zero\<lparr>
     Chart.ID := ''oldest_transaction_xid'',
     Title := ''Oldest transaction XID'',
     Units := ''xid'',
     Fam := ''txid wraparound'',
     Ctx := ''postgres.oldest_transaction_xid'',
     Priority := prioTXIDWraparoundOldestTXID P,
     Dims := [
       Dim_zero\<lparr>Dim.ID := ''oldest_current_xid'', Name := ''xid''\<rparr>]\<rparr>"

definition catalogRelationCountChart :: "int \<Rightarrow> Dim Chart" where
  "catalogRelationCountChart P = Chart_zero\<lparr>
     Chart.ID := ''catalog_relation_count'',
     Title := ''Relation count'',
     Units := ''relations'',
     Fam := ''catalog'',
     Ctx := ''postgres.catalog_relation_count'',
     Priority := prioCatalogRelationCount P,
     Type := Stacked,
     Dims := [
       Dim_zero\<lparr>Dim.ID := ''catalog_relkind_r_count'', Name := ''ordinary_table''\<rparr>,
       Dim_zero\<lparr>Dim.ID := ''catalog_relkind_i_count'', Name := ''index''\<rparr>,
       Dim_zero\<lparr>Dim.ID := ''catalog_relkind_S_count'', Name := ''sequence''\<rparr>,
       Dim_zero\<lparr>Dim.ID := ''catalog_relkind_t_count'', Name := ''toast_table''\<rparr>,
       Dim_zero\<lparr>Dim.ID := ''catalog_relkind_v_count'', Name := ''view''\<rparr>,
       Dim_zero\<lparr>Dim.ID := ''catalog_relkind_m_count'', Name := ''materialized_view''\<rparr>,
       Dim_zero\<lparr>Dim.ID := ''catalog_relkind_c_count'', Name := ''composite_type''\<rparr>,
       Dim_zero\<lparr>Dim.ID := ''catalog_relkind_f_count'', Name := ''foreign_table''\<rparr>,
       Dim_zero\<lparr>Dim.ID := ''catalog_relkind_p_count'', Name := ''partitioned_table''\<rparr>,
       Dim_zero\<lparr>Dim.ID := ''catalog_relkind_I_count'', Name := ''partitioned_index''\<rparr>]\<rparr>"

definition catalogRelationSizeChart :: "int \<Rightarrow> Dim Chart" where
  "catalogRelationSizeChart P = Chart_zero\<lparr>
     Chart.ID := ''catalog_relation_size'',
     Title := ''Relation size'',
     Units := ''B'',
     Fam := ''catalog'',
     Ctx := ''postgres.catalog_relation_size'',
     Priority := prioCatalogRelationSize P,
     Type := Stacked,
     Dims := [
       Dim_zero\<lparr>Dim.ID := ''catalog_relkind_r_size'', Name := ''ordinary_table''\<rparr>,
       Dim_zero\<lparr>Dim.ID := ''catalog_relkind_i_size'', Name := ''index''\<rparr>,
       Dim_zero\<lparr>Dim.ID := ''catalog_relkind_S_size'', Name := ''sequence''\<rparr>,
       Dim_zero\<lparr>Dim.ID := ''catalog_relkind_t_size'', Name := ''toast_table''\<rparr>,
       Dim_zero\<lparr>Dim.ID := ''catalog_relkind_v_size'', Name := ''view''\<rparr>,
       Dim_zero\<lparr>Dim.ID := ''catalog_relkind_m_size'', Name := ''materialized_view''\<rparr>,
       Dim_zero\<lparr>Dim.ID := ''catalog_relkind_c_size'', Name := ''composite_type''\<rparr>,
       Dim_zero\<lparr>Dim.ID := ''catalog_relkind_f_size'', Name := ''foreign_table''\<rparr>,
       Dim_zero\<lparr>Dim.ID := ''catalog_relkind_p_size'', Name := ''partitioned_table''\<rparr>,
       Dim_zero\<lparr>Dim.ID := ''catalog_relkind_I_size'', Name := ''partitioned_index''\<rparr>]\<rparr>"

definition serverUptimeChart :: "int \<Rightarrow> Dim Chart" where
  "serverUptimeChart P = Chart_zero\<lparr>
     Chart.ID := ''server_uptime'',
     Title := ''Uptime'',
     Units := ''seconds'',
     Fam := ''uptime'',
     Ctx := ''postgres.uptime'',
     Priority := prioUptime P,
     Dims := [
       Dim_zero\<lparr>Dim.ID := ''server_uptime'', Name := ''uptime''\<rparr>]\<rparr>"

definition dbTransactionsChartTmpl :: "int \<Rightarrow> Dim Chart" where
  "dbTransactionsChartTmpl P = Chart_zero\<lparr>
     Chart.ID := ''db_%s_transactions'',
     Title := ''Database transactions'',
     Units := ''transactions/s'',
     Fam := ''db transactions'',
     Ctx := ''postgres.db_transactions'',
     Priority := prioDBTransactions P,
     Dims := [
       Dim_zero\<lparr>Dim.ID := ''db_%s_xact_commit'', Name := ''committed'', Algo := Incremental\<rparr>,
       Dim_zero\<lparr>Dim.ID := ''db_%s_xact_rollback'', Name := ''rollback'', Algo := Incremental\<rparr>]\<rparr>"

definition dbConnectionsUtilizationChartTmpl :: "int \<Rightarrow> Dim Chart" where
  "dbConnectionsUtilizationChartTmpl P = Chart_zero\<lparr>
     Chart.ID := ''db_%s_connections_utilization'',
     Title := ''Database connections utilization withing limits'',
     Units := ''percentage'',
     Fam := ''db connections'',
     Ctx := ''postgres.db_connections_utilization'',
     Priority := prioDBConnectionsUtilization P,
     Dims := [
       Dim_zero\<lparr>Dim.ID := ''db_%s_numbackends_utilization'', Name := ''used''\<rparr>]\<rparr>"

definition dbConnectionsChartTmpl :: "int \<Rightarrow> Dim Chart" where
  "dbConnectionsChartTmpl P = Chart_zero\<lparr>
     Chart.ID := ''db_%s_connections'',
     Title := ''Database connections'',
     Units := ''connections'',
     Fam := ''db connections'',
     Ctx := ''postgres.db_connections'',
     Priority := prioDBConnections P,
     Dims := [
       Dim_zero\<lparr>Dim.ID := ''db_%s_numbackends'', Name := ''connections''\<rparr>]\<rparr>"

definition dbBufferCacheChartTmpl :: "int \<Rightarrow> Dim Chart" where
  "dbBufferCacheChartTmpl P = Chart_zero\<lparr>
     Chart.ID := ''db_%s_buffer_cache'',
     Title := ''Database buffer cache'',
     Units := ''blocks/s'',
     Fam := ''db buffer cache'',
     Ctx := ''postgres.db_buffer_cache'',
     Priority := prioDBBufferCache P,
     Type := Area,
     Dims := [
       Dim_zero\<lparr>Dim.ID := ''db_%s_blks_hit'', Name := ''hit'', Algo := Incremental\<rparr>,
       Dim_zero\<lparr>Dim.ID := ''db_%s_blks_read'', Name := ''miss'', Algo := Incremental\<rparr>]\<rparr>"

definition dbReadOpsChartTmpl :: "int \<Rightarrow> Dim Chart" where
  "dbReadOpsChartTmpl P = Chart_zero\<lparr>
     Chart.ID := ''db_%s_read_operations'',
     Title := ''Database read operations'',
     Units := ''rows/s'',
     Fam := ''db operations'',
     Ctx := ''postgres.db_read_operations'',
     Priority := prioDBReadOperations P,
     Dims := [
       Dim_zero\<lparr>Dim.ID := ''db_%s_tup_returned'', Name := ''returned'', Algo := Incremental\<rparr>,
       Dim_zero\<lparr>Dim.ID := ''db_%s_tup_fetched'', Name := ''fetched'', Algo := Incremental\<rparr>]\<rparr>"

definition dbWriteOpsChartTmpl :: "int \<Rightarrow> Dim Chart" where
  "dbWriteOpsChartTmpl P = Chart_zero\<lparr>
     Chart.ID := ''db_%s_write_operations'',
     Title := ''Database write operations'',
     Units := ''rows/s'',
     Fam := ''db operations'',
     Ctx := ''postgres.db_write_operations'',
     Priority := prioDBWriteOperations P,
     Dims := [
       Dim_zero\<lparr>Dim.ID := ''db_%s_tup_inserted'', Name := ''inserted'', Algo := Incremental\<rparr>,
       Dim_zero\<lparr>Dim.ID := ''db_%s_tup_deleted'', Name := ''deleted'', Algo := Incremental\<rparr>,
       Dim_zero\<lparr>Dim.ID := ''db_%s_tup_updated'', Name := ''updated'', Algo := Incremental\<rparr>]\<rparr>"

definition dbConflictsChartTmpl :: "int \<Rightarrow> Dim Chart" where
  "dbConflictsChartTmpl P = Chart_zero\<lparr>
     Chart.ID := ''db_%s_conflicts'',
     Title := ''Database canceled queries'',
     Units := ''queries/s'',
     Fam := ''db operations'',
     Ctx := ''postgres.db_conflicts'',
     Priority := prioDBConflicts P,
     Dims := [
       Dim_zero\<lparr>Dim.ID := ''db_%s_conflicts'', Name := ''conflicts'', Algo := Incremental\<rparr>]\<rparr>"

definition dbConflictsStatChartTmpl :: "int \<Rightarrow> Dim Chart" where
  "dbConflictsStatChartTmpl P = Chart_zero\<lparr>
     Chart.ID := ''db_%s_conflicts_stat'',
     Title := ''Database canceled queries by reason'',
     Units := ''queries/s'',
     Fam := ''db operations'',
     Ctx := ''postgres.db_conflicts_stat'',
     Priority := prioDBConflictsStat P,
     Dims := [
       Dim_zero\<lparr>Dim.ID := ''db_%s_confl_tablespace'', Name := ''tablespace'', Algo := Incremental\<rparr>,
       Dim_zero\<lparr>Dim.ID := ''db_%s_confl_lock'', Name := ''lock'', Algo := Incremental\<rparr>,
       Dim_zero\<lparr>Dim.ID := ''db_%s_confl_snapshot'', Name := ''snapshot'', Algo := Incremental\<rparr>,
       Dim_zero\<lparr>Dim.ID := ''db_%s_confl_bufferpin'', Name := ''bufferpin'', Algo := Incremental\<rparr>,
       Dim_zero\<lparr>Dim.ID := ''db_%s_confl_deadlock'', Name := ''deadlock'', Algo := Incremental\<rparr>]\<rparr>"

definition dbDeadlocksChartTmpl :: "int \<Rightarrow> Dim Chart" where
  "dbDeadlocksChartTmpl P = Chart_zero\<lparr>
     Chart.ID := ''db_%s_deadlocks'',
     Title := ''Database deadlocks'',
     Units := ''deadlocks/s'',
     Fam := ''db deadlocks'',
     Ctx := ''postgres.db_deadlocks'',
     Priority := prioDBDeadlocks P,
     Dims := [
       Dim_zero\<lparr>Dim.ID := ''db_%s_deadlocks'', Name := ''deadlocks'', Algo := Incremental\<rparr>]\<rparr>"

definition dbLocksHeldChartTmpl :: "int \<Rightarrow> Dim Chart" where
  "dbLocksHeldChartTmpl P = Chart_zero\<lparr>
     Chart.ID := ''db_%s_locks_held'',
     Title := ''Database locks held'',
     Units := ''locks'',
     Fam := ''db locks'',
     Ctx := ''postgres.db_locks_held'',
     Priority := prioDBLocksHeld P,
     Type := Stacked,
     Dims := [
       Dim_zero\<lparr>Dim.ID := ''db_%s_lock_mode_AccessShareLock_held'', Name := ''access_share''\<rparr>,
       Dim_zero\<lparr>Dim.ID := ''db_%s_lock_mode_RowShareLock_held'', Name := ''row_share''\<rparr>,
       Dim_zero\<lparr>Dim.ID := ''db_%s_lock_mode_RowExclusiveLock_held'', Name := ''row_exclusive''\<rparr>,
       Dim_zero\<lparr>Dim.ID := ''db_%s_lock_mode_ShareUpdateExclusiveLock_held'', Name := ''share_update''\<rparr>,
       Dim_zero\<lparr>Dim.ID := ''db_%s_lock_mode_ShareLock_held'', Name := ''share''\<rparr>,
       Dim_zero\<lparr>Dim.ID := ''db_%s_lock_mode_ShareRowExclusiveLock_held'', Name := ''share_row_exclusive''\<rparr>,
       Dim_zero\<lparr>Dim.ID := ''db_%s_lock_mode_ExclusiveLock_held'', Name := ''exclusive''\<rparr>,
       Dim_zero\<lparr>Dim.ID := ''db_%s_lock_mode_AccessExclusiveLock_held'', Name := ''access_exclusive''\<rparr>]\<rparr>"

definition dbLocksAwaitedChartTmpl :: "int \<Rightarrow> Dim Chart" where
  "dbLocksAwaitedChartTmpl P = Chart_zero\<lparr>
     Chart.ID := ''db_%s_locks_awaited'',
     Title := ''Database locks awaited'',
     Units := ''locks'',
     Fam := ''db locks'',
     Ctx := ''postgres.db_locks_awaited'',
     Priority := prioDBLocksAwaited P,
     Type := Stacked,
     Dims := [
       Dim_zero\<lparr>Dim.ID := ''db_%s_lock_mode_AccessShareLock_awaited'', Name := ''access_share''\<rparr>,
       Dim_zero\<lparr>Dim.ID := ''db_%s_lock_mode_RowShareLock_awaited'', Name := ''row_share''\<rparr>,
       Dim_zero\<lparr>Dim.ID := ''db_%s_lock_mode_RowExclusiveLock_awaited'', Name := ''row_exclusive''\<rparr>,
       Dim_zero\<lparr>Dim.ID := ''db_%s_lock_mode_ShareUpdateExclusiveLock_awaited'', Name := ''share_update''\<rparr>,
       Dim_zero\<lparr>Dim.ID := ''db_%s_lock_mode_ShareLock_awaited'', Name := ''share''\<rparr>,
       Dim_zero\<lparr>Dim.ID := ''db_%s_lock_mode_ShareRowExclusiveLock_awaited'', Name := ''share_row_exclusive''\<rparr>,
       Dim_zero\<lparr>Dim.ID := ''db_%s_lock_mode_ExclusiveLock_awaited'', Name := ''exclusive''\<rparr>,
       Dim_zero\<lparr>Dim.ID := ''db_%s_lock_mode_AccessExclusiveLock_awaited'', Name := ''access_exclusive''\<rparr>]\<rparr>"

definition dbTempFilesChartTmpl :: "int \<Rightarrow> Dim Chart" where
  "dbTempFilesChartTmpl P = Chart_zero\<lparr>
     Chart.ID := ''db_%s_temp_files'',
     Title := ''Database temporary files written to disk'',
     Units := ''files/s'',
     Fam := ''db temp files'',
     Ctx := ''postgres.db_temp_files'',
     Priority := prioDBTempFiles P,
     Dims := [
       Dim_zero\<lparr>Dim.ID := ''db_%s_temp_files'', Name := ''written'', Algo := Incremental\<rparr>]\<rparr>"

definition dbTempFilesDataChartTmpl :: "int \<Rightarrow> Dim Chart" where
  "dbTempFilesDataChartTmpl P = Chart_zero\<lparr>
     Chart.ID := ''db_%s_temp_files_data'',
     Title := ''Database temporary files data written to disk'',
     Units := ''B/s'',
     Fam := ''db temp files'',
     Ctx := ''postgres.db_temp_files_data'',
     Priority := prioDBTempFilesData P,
     Dims := [
       Dim_zero\<lparr>Dim.ID := ''db_%s_temp_bytes'', Name := ''written'', Algo := Incremental\<rparr>]\<rparr>"

definition dbSizeChartTmpl :: "int \<Rightarrow> Dim Chart" where
  "dbSizeChartTmpl P = Chart_zero\<lparr>
     Chart.ID := ''db_%s_size'',
     Title := ''Database size'',
     Units := ''B'',
     Fam := ''db size'',
     Ctx := ''postgres.db_size'',
     Priority := prioDBSize P,
     Dims := [
       Dim_zero\<lparr>Dim.ID := ''db_%s_size'', Name := ''size''\<rparr>]\<rparr>"

subsection \<open>The tables\<close>

text \<open>The values that \<open>baseCharts\<close> and \<open>dbChartsTmpl\<close> list, in the order of the source;
  the package variables themselves hold a copy of each (see \<open>init\<close> below).\<close>

definition baseCharts_values :: "int \<Rightarrow> Dim Chart list" where
  "baseCharts_values P =
    [serverConnectionsUtilizationChart P,
     serverConnectionsUsageChart P,
     checkpointsChart P,
     checkpointWriteChart P,
     bgWriterBuffersWrittenChart P,
     bgWriterBuffersAllocChart P,
     bgWriterMaxWrittenCleanChart P,
     bgWriterBuffersBackendFsyncChart P,
     walWritesChart P,
     walFilesChart P,
     walArchiveFilesChart P,
     autovacuumWorkersChart P,
     percentTowardsEmergencyAutovacuumChart P,
     percentTowardTXIDWraparoundChart P,
     oldestTXIDChart P,
     catalogRelationCountChart P,
     catalogRelationSizeChart P,
     serverUptimeChart P]"

definition dbChartsTmpl_values :: "int \<Rightarrow> Dim Chart list" where
  "dbChartsTmpl_values P =
    [dbTransactionsChartTmpl P,
     dbConnectionsUtilizationChartTmpl P,
     dbConnectionsChartTmpl P,
     dbBufferCacheChartTmpl P,
     dbReadOpsChartTmpl P,
     dbWriteOpsChartTmpl P,
     dbConflictsChartTmpl P,
     dbConflictsStatChartTmpl P,
     dbDeadlocksChartTmpl P,
     dbLocksHeldChartTmpl P,
     dbLocksAwaitedChartTmpl P,
     dbTempFilesChartTmpl P,
     dbTempFilesDataChartTmpl P,
     dbSizeChartTmpl P]"

definition priorities :: "int \<Rightarrow> int list" where
  "priorities P =
    [prioConnectionsUtilization P,
     prioConnectionsUsage P,
     prioCheckpoints P,
     prioCheckpointTime P,
     prioBGWriterBuffersAllocated P,
     prioBGWriterBuffersWritten P,
     prioBGWriterMaxWrittenClean P,
     prioBGWriterBackedFsync P,
     prioWALWrites P,
     prioWALFiles P,
     prioWALArchive P,
     prioAutovacuumWorkers P,
     prioAutovacuumPercentTowards P,
     prioTXIDWraparoundPercentTowards P,
     prioTXIDWraparoundOldestTXID P,
     prioCatalogRelationCount P,
     prioCatalogRelationSize P,
     prioUptime P,
     prioDBTransactions P,
     prioDBConnectionsUtilization P,
     prioDBConnections P,
     prioDBBufferCache P,
     prioDBReadOperations P,
     prioDBWriteOperations P,
     prioDBConflicts P,
     prioDBConflictsStat P,
     prioDBDeadlocks P,
     prioDBLocksHeld P,
     prioDBLocksAwaited P,
     prioDBTempFiles P,
     prioDBTempFilesData P,
     prioDBSize P]"

subsection \<open>The store\<close>

text \<open>
  \<open>chartHeap\<close> and \<open>dimHeap\<close> hold the chart and dimension objects; an address is a position
  in them and allocation appends. \<open>baseCharts\<close> and \<open>dbChartsTmpl\<close> are the two package
  variables, \<open>charts\<close> is the collection that \<open>p.Charts()\<close> points to, \<open>warnings\<close> is what
  \<open>p.Warning\<close> has logged. Go has no dangling pointers, and no collection here holds a nil
  pointer (\<open>Copy\<close> returns the address of a fresh object), so every address the program
  follows is below the length of its heap.
\<close>

datatype error = ErrDuplicate string

record State =
  chartHeap :: "ref Chart list"
  dimHeap :: "Dim list"
  baseCharts :: "ref list"
  dbChartsTmpl :: "ref list"
  charts :: "ref list"
  warnings :: "error list"

definition set_Dims :: "'a Chart \<Rightarrow> 'b list \<Rightarrow> 'b Chart" where
  "set_Dims c ds = \<lparr>Chart.ID = Chart.ID c, Title = Title c, Units = Units c, Fam = Fam c,
     Ctx = Ctx c, Type = Type c, Priority = Priority c, Labels = Labels c, Dims = ds,
     remove = remove c, created = created c\<rparr>"

text \<open>Reading a chart out of the store: the chart with its dimensions dereferenced.\<close>

definition deref :: "State \<Rightarrow> ref Chart \<Rightarrow> Dim Chart" where
  "deref s c = set_Dims c (map ((!) (dimHeap s)) (Dims c))"

definition view :: "State \<Rightarrow> ref \<Rightarrow> Dim Chart" where
  "view s r = deref s (chartHeap s ! r)"

text \<open>Assignment to a field through a pointer: \<open>c.f = e\<close> and \<open>d.f = e\<close>.\<close>

definition upd_chart :: "ref \<Rightarrow> (ref Chart \<Rightarrow> ref Chart) \<Rightarrow> State \<Rightarrow> State" where
  "upd_chart c f s = s\<lparr>chartHeap := (chartHeap s)[c := f (chartHeap s ! c)]\<rparr>"

definition upd_dim :: "ref \<Rightarrow> (Dim \<Rightarrow> Dim) \<Rightarrow> State \<Rightarrow> State" where
  "upd_dim d f s = s\<lparr>dimHeap := (dimHeap s)[d := f (dimHeap s ! d)]\<rparr>"

subsection \<open>Helpers of package \<open>module\<close>\<close>

text \<open>
  Modelled from the spec: \<open>Chart.Copy\<close> and \<open>Charts.Copy\<close> are methods of package
  \<open>agent/module\<close>, which is not among the sources. The spec says that charts are "cloned from
  a template" and then mutated: a copy is a new chart object with new dimension objects
  that carry the field values of the original.
\<close>

definition Dims_copy :: "ref list \<Rightarrow> State \<Rightarrow> ref list \<times> State" where
  "Dims_copy ds s =
     ([length (dimHeap s) ..< length (dimHeap s) + length ds],
      s\<lparr>dimHeap := dimHeap s @ map ((!) (dimHeap s)) ds\<rparr>)"

definition Chart_Copy :: "ref Chart \<Rightarrow> State \<Rightarrow> ref \<times> State" where
  "Chart_Copy c s =
     (case Dims_copy (Dims c) s of (ds, s1) \<Rightarrow>
        (length (chartHeap s1), s1\<lparr>chartHeap := chartHeap s1 @ [c\<lparr>Dims := ds\<rparr>]\<rparr>))"

fun Chart_Copies :: "ref Chart list \<Rightarrow> State \<Rightarrow> ref list \<times> State" where
  "Chart_Copies [] s = ([], s)"
| "Chart_Copies (c # cs) s =
     (case Chart_Copy c s of (r, s1) \<Rightarrow>
        (case Chart_Copies cs s1 of (rs, s2) \<Rightarrow> (r # rs, s2)))"

definition Charts_Copy :: "ref list \<Rightarrow> State \<Rightarrow> ref list \<times> State" where
  "Charts_Copy cs s = Chart_Copies (map ((!) (chartHeap s)) cs) s"

text \<open>
  Modelled from the spec: \<open>Chart.MarkRemove\<close> and \<open>Chart.MarkNotCreated\<close> are methods of
  package \<open>agent/module\<close>, which is not among the sources. By the spec a chart is "flagged for
  removal"; the two methods set the removal mark and clear the created mark of the chart
  they are called on.
\<close>

definition MarkRemove :: "ref \<Rightarrow> State \<Rightarrow> State" where
  "MarkRemove c s = upd_chart c (\<lambda>ch. ch\<lparr>remove := True\<rparr>) s"

definition MarkNotCreated :: "ref \<Rightarrow> State \<Rightarrow> State" where
  "MarkNotCreated c s = upd_chart c (\<lambda>ch. ch\<lparr>created := False\<rparr>) s"

text \<open>
  Modelled from the spec: \<open>Charts.Add\<close> is a method of package \<open>agent/module\<close>, which is not
  among the sources. By the spec charts are "registered with the host" and "chart IDs are
  unique strings": \<open>Add\<close> appends the charts in order to the collection and returns an error
  at the first one whose ID a registered chart already has; the charts appended before
  that one stay registered.
\<close>

definition registeredIDs :: "State \<Rightarrow> string list" where
  "registeredIDs s = map (\<lambda>r. Chart.ID (chartHeap s ! r)) (charts s)"

fun Charts_Add :: "ref list \<Rightarrow> State \<Rightarrow> error option \<times> State" where
  "Charts_Add [] s = (None, s)"
| "Charts_Add (c # cs) s =
     (if Chart.ID (chartHeap s ! c) \<in> set (registeredIDs s)
      then (Some (ErrDuplicate (Chart.ID (chartHeap s ! c))), s)
      else Charts_Add cs (s\<lparr>charts := charts s @ [c]\<rparr>))"

text \<open>\<open>p.Warning(err)\<close>: the logger of the host; the model records the error.\<close>

definition Warning :: "error \<Rightarrow> State \<Rightarrow> State" where
  "Warning e s = s\<lparr>warnings := warnings s @ [e]\<rparr>"

subsection \<open>Package initialisation\<close>

text \<open>
  Go initialises the chart values first (each composite literal allocates its dimensions)
  and then the table that lists their copies: the 18 values and \<open>baseCharts\<close>, then the 14
  templates and \<open>dbChartsTmpl\<close>. No collector exists yet, so \<open>charts\<close> is empty.
\<close>

definition newChartValue :: "Dim Chart \<Rightarrow> State \<Rightarrow> ref Chart \<times> State" where
  "newChartValue c s =
     (set_Dims c [length (dimHeap s) ..< length (dimHeap s) + length (Dims c)],
      s\<lparr>dimHeap := dimHeap s @ Dims c\<rparr>)"

fun newChartValues :: "Dim Chart list \<Rightarrow> State \<Rightarrow> ref Chart list \<times> State" where
  "newChartValues [] s = ([], s)"
| "newChartValues (c # cs) s =
     (case newChartValue c s of (v, s1) \<Rightarrow>
        (case newChartValues cs s1 of (vs, s2) \<Rightarrow> (v # vs, s2)))"

definition empty_State :: State where
  "empty_State = \<lparr>chartHeap = [], dimHeap = [], baseCharts = [], dbChartsTmpl = [],
     charts = [], warnings = []\<rparr>"

definition init :: "int \<Rightarrow> State" where
  "init P =
     (case newChartValues (baseCharts_values P) empty_State of (bvs, s1) \<Rightarrow>
      case Chart_Copies bvs s1 of (bs, s2) \<Rightarrow>
      case newChartValues (dbChartsTmpl_values P) (s2\<lparr>baseCharts := bs\<rparr>) of (dvs, s3) \<Rightarrow>
      case Chart_Copies dvs s3 of (ds, s4) \<Rightarrow> s4\<lparr>dbChartsTmpl := ds\<rparr>)"

subsection \<open>The functions of the file\<close>

text \<open>
  \<open>newDatabaseCharts\<close>: copy the template, then for each copy format its ID with the
  database name, replace its labels by the single label \<open>database\<close>, and format the ID of
  each of its dimensions. \<open>instantiateChart\<close> is the body of the outer loop.
\<close>

definition instantiateChart :: "string \<Rightarrow> State \<Rightarrow> ref \<Rightarrow> State" where
  "instantiateChart dbname s c =
     (let s1 = upd_chart c (\<lambda>ch. ch\<lparr>Chart.ID := Sprintf (Chart.ID ch) [dbname]\<rparr>) s;
          s2 = upd_chart c (\<lambda>ch. ch\<lparr>Labels := [\<lparr>Key = ''database'', Value = dbname\<rparr>]\<rparr>) s1
      in foldl (\<lambda>s d. upd_dim d (\<lambda>x. x\<lparr>Dim.ID := Sprintf (Dim.ID x) [dbname]\<rparr>) s)
           s2 (Dims (chartHeap s2 ! c)))"

definition newDatabaseCharts :: "string \<Rightarrow> State \<Rightarrow> ref list \<times> State" where
  "newDatabaseCharts dbname s =
     (case Charts_Copy (dbChartsTmpl s) s of (cs, s1) \<Rightarrow>
        (cs, foldl (instantiateChart dbname) s1 cs))"

text \<open>\<open>addNewDatabaseCharts\<close>: an error of \<open>Add\<close> is logged and nothing is returned.\<close>

definition addNewDatabaseCharts :: "string \<Rightarrow> State \<Rightarrow> State" where
  "addNewDatabaseCharts dbname s =
     (case newDatabaseCharts dbname s of (cs, s1) \<Rightarrow>
        (case Charts_Add cs s1 of
           (None, s2) \<Rightarrow> s2
         | (Some err, s2) \<Rightarrow> Warning err s2))"

text \<open>\<open>removeDatabaseCharts\<close>: the range expression \<open>*p.Charts()\<close> is read once.\<close>

definition removeDatabaseCharts :: "string \<Rightarrow> State \<Rightarrow> State" where
  "removeDatabaseCharts dbname s =
     (let prefix = Sprintf ''db_%s_'' [dbname]
      in foldl (\<lambda>s c. if HasPrefix (Chart.ID (chartHeap s ! c)) prefix
                       then MarkNotCreated c (MarkRemove c s) else s)
           s (charts s))"

section \<open>Notions used to state the properties\<close>

subsection \<open>What the two loops of \<open>newDatabaseCharts\<close> do to one chart\<close>

text \<open>The assignments of the loop body, read on a chart with its dimensions:
  both IDs go through \<open>Sprintf\<close> and the labels are replaced.\<close>

definition fmtDim :: "string \<Rightarrow> Dim \<Rightarrow> Dim" where
  "fmtDim dbname x = x\<lparr>Dim.ID := Sprintf (Dim.ID x) [dbname]\<rparr>"

definition fmtChart :: "string \<Rightarrow> 'd Chart \<Rightarrow> 'd Chart" where
  "fmtChart dbname c = c\<lparr>Chart.ID := Sprintf (Chart.ID c) [dbname],
     Labels := [\<lparr>Key = ''database'', Value = dbname\<rparr>]\<rparr>"

definition formatted :: "string \<Rightarrow> Dim Chart \<Rightarrow> Dim Chart" where
  "formatted dbname c = (fmtChart dbname c)\<lparr>Dims := map (fmtDim dbname) (Dims c)\<rparr>"

text \<open>The inner loop and the loop of \<open>removeDatabaseCharts\<close>, on the heap alone.\<close>

definition upd_all :: "('a \<Rightarrow> 'a) \<Rightarrow> 'a list \<Rightarrow> nat list \<Rightarrow> 'a list" where
  "upd_all f h ds = foldl (\<lambda>h d. h[d := f (h ! d)]) h ds"

definition mark :: "'d Chart \<Rightarrow> 'd Chart" where
  "mark c = c\<lparr>remove := True, created := False\<rparr>"

definition mark_all :: "string \<Rightarrow> ref Chart list \<Rightarrow> ref list \<Rightarrow> ref Chart list" where
  "mark_all p h cs =
     foldl (\<lambda>h c. if HasPrefix (Chart.ID (h ! c)) p then h[c := mark (h ! c)] else h) h cs"

subsection \<open>The instantiation as the spec words it\<close>

text \<open>
  The spec: the database name is "substituted" for the placeholder in the chart ID and in
  every dimension ID, and a label is attached. \<open>substitute d f\<close> replaces the first \<open>%s\<close> of
  \<open>f\<close> by \<open>d\<close> and knows nothing else of \<open>fmt\<close>; \<open>instantiated\<close> is the chart the spec
  describes, to be compared with what the code computes.
\<close>

fun substitute :: "string \<Rightarrow> string \<Rightarrow> string" where
  "substitute d (a # b # rest) =
     (if a = CHR ''%'' \<and> b = CHR ''s'' then d @ rest else a # substitute d (b # rest))"
| "substitute d fs = fs"

definition instantiated :: "string \<Rightarrow> Dim Chart \<Rightarrow> Dim Chart" where
  "instantiated d c = c\<lparr>Chart.ID := substitute d (Chart.ID c),
     Labels := [\<lparr>Key = ''database'', Value = d\<rparr>],
     Dims := map (\<lambda>x. x\<lparr>Dim.ID := substitute d (Dim.ID x)\<rparr>) (Dims c)\<rparr>"

text \<open>The directives of a format: every \<open>%\<close> with the byte that follows it.\<close>

fun directives :: "string \<Rightarrow> string list" where
  "directives (c # v # fs) =
     (if c = CHR ''%'' then [c, v] # directives fs else directives (v # fs))"
| "directives [c] = (if c = CHR ''%'' then [[c]] else [])"
| "directives [] = []"

definition allIDs :: "Dim Chart \<Rightarrow> string list" where
  "allIDs c = Chart.ID c # map Dim.ID (Dims c)"

definition generatedIDs :: "int \<Rightarrow> string \<Rightarrow> string list" where
  "generatedIDs P d = map (\<lambda>t. Chart.ID (instantiated d t)) (dbChartsTmpl_values P)"

definition heapIDs :: "State \<Rightarrow> ref list \<Rightarrow> string list" where
  "heapIDs s cs = map (\<lambda>r. Chart.ID (chartHeap s ! r)) cs"

subsection \<open>Well-formed stores\<close>

text \<open>
  An address is valid when it is allocated and so are the dimensions of the chart it
  points to. \<open>tmpl_ok\<close> and \<open>base_ok\<close> say that the two package variables still hold what
  initialisation gave them; \<open>charts_ok\<close> that the collection holds allocated charts.
\<close>

definition valid_dims :: "State \<Rightarrow> ref Chart \<Rightarrow> bool" where
  "valid_dims s c = (\<forall>d\<in>set (Dims c). d < length (dimHeap s))"

definition valid :: "State \<Rightarrow> ref \<Rightarrow> bool" where
  "valid s r = (r < length (chartHeap s) \<and> valid_dims s (chartHeap s ! r))"

definition tmpl_ok :: "int \<Rightarrow> State \<Rightarrow> bool" where
  "tmpl_ok P s = (list_all (valid s) (dbChartsTmpl s) \<and>
     map (view s) (dbChartsTmpl s) = dbChartsTmpl_values P)"

definition base_ok :: "int \<Rightarrow> State \<Rightarrow> bool" where
  "base_ok P s = (list_all (valid s) (baseCharts s) \<and>
     map (view s) (baseCharts s) = baseCharts_values P)"

definition charts_ok :: "State \<Rightarrow> bool" where
  "charts_ok s = list_all (\<lambda>c. c < length (chartHeap s)) (charts s)"

subsection \<open>Relations between stores\<close>

text \<open>
  \<open>ext s s'\<close>: \<open>s'\<close> is \<open>s\<close> with more objects allocated, every object of \<open>s\<close> untouched.
  \<open>owned s m n cs\<close>: the charts \<open>cs\<close> are distinct objects at addresses from \<open>m\<close> on, and their
  dimensions are distinct objects at addresses from \<open>n\<close> on, shared with no other chart of
  \<open>cs\<close>. \<open>frame s s' cs\<close>: from \<open>s\<close> to \<open>s'\<close> nothing was allocated and only the charts \<open>cs\<close> and
  their dimensions were written.
\<close>

definition ext :: "State \<Rightarrow> State \<Rightarrow> bool" where
  "ext s s' = (prefix (chartHeap s) (chartHeap s') \<and> prefix (dimHeap s) (dimHeap s') \<and>
     baseCharts s' = baseCharts s \<and> dbChartsTmpl s' = dbChartsTmpl s \<and>
     charts s' = charts s \<and> warnings s' = warnings s)"

definition owned :: "State \<Rightarrow> nat \<Rightarrow> nat \<Rightarrow> ref list \<Rightarrow> bool" where
  "owned s m n cs = (distinct cs \<and> (\<forall>c\<in>set cs. m \<le> c \<and> c < length (chartHeap s)) \<and>
     distinct (concat (map (\<lambda>c. Dims (chartHeap s ! c)) cs)) \<and>
     (\<forall>c\<in>set cs. \<forall>d\<in>set (Dims (chartHeap s ! c)). n \<le> d \<and> d < length (dimHeap s)))"

definition dimsOf :: "State \<Rightarrow> ref list \<Rightarrow> ref set" where
  "dimsOf s cs = (\<Union>c\<in>set cs. set (Dims (chartHeap s ! c)))"

definition frame :: "State \<Rightarrow> State \<Rightarrow> ref list \<Rightarrow> bool" where
  "frame s s' cs = (length (chartHeap s') = length (chartHeap s) \<and>
     length (dimHeap s') = length (dimHeap s) \<and>
     baseCharts s' = baseCharts s \<and> dbChartsTmpl s' = dbChartsTmpl s \<and>
     charts s' = charts s \<and> warnings s' = warnings s \<and>
     (\<forall>r<length (chartHeap s). Dims (chartHeap s' ! r) = Dims (chartHeap s ! r)) \<and>
     (\<forall>r<length (chartHeap s). r \<notin> set cs \<longrightarrow> chartHeap s' ! r = chartHeap s ! r) \<and>
     (\<forall>x<length (dimHeap s). x \<notin> dimsOf s cs \<longrightarrow> dimHeap s' ! x = dimHeap s ! x))"

subsection \<open>Fields that instantiation leaves alone\<close>

text \<open>
  \<open>restored t c\<close> puts the chart ID, the labels and the dimension IDs of \<open>t\<close> back into \<open>c\<close>:
  when the result is \<open>t\<close>, these three are the only places where \<open>c\<close> differs from \<open>t\<close>.
  \<open>same_fields t c\<close> lists the fields the spec names one by one, and adds that equation.
\<close>

definition restored :: "Dim Chart \<Rightarrow> Dim Chart \<Rightarrow> Dim Chart" where
  "restored t c = c\<lparr>Chart.ID := Chart.ID t, Labels := Labels t,
     Dims := map2 (\<lambda>x y. x\<lparr>Dim.ID := Dim.ID y\<rparr>) (Dims c) (Dims t)\<rparr>"

definition same_fields :: "Dim Chart \<Rightarrow> Dim Chart \<Rightarrow> bool" where
  "same_fields t c = (Title c = Title t \<and> Units c = Units t \<and> Fam c = Fam t \<and> Ctx c = Ctx t \<and>
     Priority c = Priority t \<and> Type c = Type t \<and> length (Dims c) = length (Dims t) \<and>
     map Name (Dims c) = map Name (Dims t) \<and> map Algo (Dims c) = map Algo (Dims t) \<and>
     restored t c = t)"

subsection \<open>A small store for examples\<close>

text \<open>Four charts without dimensions, three of them registered.\<close>

definition example_State :: State where
  "example_State = \<lparr>chartHeap =
       [Chart_zero\<lparr>Chart.ID := ''db_a_size''\<rparr>,
        Chart_zero\<lparr>Chart.ID := ''db_ab_size''\<rparr>,
        Chart_zero\<lparr>Chart.ID := ''wal_files''\<rparr>,
        Chart_zero\<lparr>Chart.ID := ''db_a_deadlocks''\<rparr>],
     dimHeap = [], baseCharts = [], dbChartsTmpl = [], charts = [0, 1, 2], warnings = []\<rparr>"

section \<open>Lemmas\<close>

lemma doPrintf_plain: "CHR ''%'' \<notin> set fs \<Longrightarrow> doPrintf fs [] = fs"
  by (induction fs) auto

lemma doPrintf_verb_s:
  "CHR ''%'' \<notin> set pre \<Longrightarrow> CHR ''%'' \<notin> set post \<Longrightarrow>
   doPrintf (pre @ ''%s'' @ post) [d] = pre @ d @ post"
  by (induction pre) (auto simp: doPrintf_plain)

lemma Sprintf_prefix: "Sprintf ''db_%s_'' [d] = ''db_'' @ d @ ''_''"
  by (simp add: Sprintf_def)

lemma HasPrefix_iff: "HasPrefix s p \<longleftrightarrow> prefix p s"
  unfolding HasPrefix_def
  by (metis append_eq_conv_conj prefix_def prefix_length_le take_is_prefix)

lemma ext_refl: "ext s s"
  by (simp add: ext_def)

lemma ext_trans: "ext s s1 \<Longrightarrow> ext s1 s2 \<Longrightarrow> ext s s2"
  unfolding ext_def by (metis prefix_order.order_trans)

lemma prefix_nth: "prefix xs ys \<Longrightarrow> i < length xs \<Longrightarrow> ys ! i = xs ! i"
  by (auto simp: prefix_def nth_append)

lemma ext_chart: "ext s s' \<Longrightarrow> r < length (chartHeap s) \<Longrightarrow> chartHeap s' ! r = chartHeap s ! r"
  by (simp add: ext_def prefix_nth)

lemma ext_dim: "ext s s' \<Longrightarrow> d < length (dimHeap s) \<Longrightarrow> dimHeap s' ! d = dimHeap s ! d"
  by (simp add: ext_def prefix_nth)

lemma ext_length:
  "ext s s' \<Longrightarrow> length (chartHeap s) \<le> length (chartHeap s') \<and> length (dimHeap s) \<le> length (dimHeap s')"
  by (simp add: ext_def prefix_length_le)

lemma ext_valid_dims: "ext s s' \<Longrightarrow> valid_dims s v \<Longrightarrow> valid_dims s' v"
  using ext_length [of s s'] by (fastforce simp: valid_dims_def)

lemma ext_deref: "ext s s' \<Longrightarrow> valid_dims s v \<Longrightarrow> deref s' v = deref s v"
proof -
  assume e: "ext s s'" and v: "valid_dims s v"
  have "map ((!) (dimHeap s')) (Dims v) = map ((!) (dimHeap s)) (Dims v)"
    using e v by (auto simp: valid_dims_def ext_dim)
  then show ?thesis by (simp only: deref_def)
qed

lemma ext_valid: "ext s s' \<Longrightarrow> valid s r \<Longrightarrow> valid s' r"
  using ext_length [of s s'] by (auto simp: valid_def ext_chart ext_valid_dims)

lemma ext_view: "ext s s' \<Longrightarrow> valid s r \<Longrightarrow> view s' r = view s r"
  by (simp add: view_def valid_def ext_chart ext_deref)

lemma map_nth_append_upt:
  "map ((!) (xs @ ys)) [length xs ..< length xs + length ys] = ys"
  by (rule nth_equalityI) (auto simp: nth_append)

lemma set_Dims_update [simp]: "set_Dims (c\<lparr>Dims := ds\<rparr>) es = set_Dims c es"
  by (simp add: set_Dims_def)

lemma Dims_set_Dims [simp]: "Dims (set_Dims c ds) = ds"
  by (simp add: set_Dims_def)

lemma Chart_Copy_eq:
  "Chart_Copy v s =
     (length (chartHeap s),
      s\<lparr>dimHeap := dimHeap s @ map ((!) (dimHeap s)) (Dims v),
        chartHeap := chartHeap s @
          [v\<lparr>Dims := [length (dimHeap s) ..< length (dimHeap s) + length (Dims v)]\<rparr>]\<rparr>)"
  by (simp add: Chart_Copy_def Dims_copy_def)

lemma Chart_Copy_props:
  assumes "Chart_Copy v s = (r, s1)"
  shows "r = length (chartHeap s)" and "ext s s1"
    and "length (chartHeap s1) = Suc (length (chartHeap s))"
    and "length (dimHeap s1) = length (dimHeap s) + length (Dims v)"
    and "Dims (chartHeap s1 ! r) = [length (dimHeap s) ..< length (dimHeap s) + length (Dims v)]"
    and "view s1 r = deref s v"
  using assms map_nth_append_upt [of "dimHeap s" "map ((!) (dimHeap s)) (Dims v)"]
  by (auto simp: Chart_Copy_eq ext_def view_def deref_def)

lemma owned_Nil [simp]: "owned s m n []"
  by (simp add: owned_def)

lemma Chart_Copies_props:
  "Chart_Copies vs s = (cs, s1) \<Longrightarrow> \<forall>v\<in>set vs. valid_dims s v \<Longrightarrow>
   ext s s1 \<and> length cs = length vs \<and>
   owned s1 (length (chartHeap s)) (length (dimHeap s)) cs \<and>
   map (view s1) cs = map (deref s) vs"
proof (induction vs arbitrary: s cs s1)
  case Nil
  then show ?case by (simp add: ext_refl)
next
  case (Cons v vs)
  obtain r sa where c1: "Chart_Copy v s = (r, sa)" by (cases "Chart_Copy v s")
  obtain rs sb where c2: "Chart_Copies vs sa = (rs, sb)" by (cases "Chart_Copies vs sa")
  from Cons.prems(1) c1 c2 have cs: "cs = r # rs" and s1: "s1 = sb" by auto
  note p = Chart_Copy_props [OF c1]
  have vd: "\<forall>v\<in>set vs. valid_dims sa v"
    using Cons.prems(2) p(2) by (auto intro: ext_valid_dims)
  from Cons.IH [OF c2 vd]
  have e2: "ext sa sb" and len: "length rs = length vs"
    and ow: "owned sb (length (chartHeap sa)) (length (dimHeap sa)) rs"
    and vw: "map (view sb) rs = map (deref sa) vs" by auto
  have e: "ext s sb" using p(2) e2 by (rule ext_trans)
  have rlt: "r < length (chartHeap sa)" using p(1,3) by simp
  have chr: "chartHeap sb ! r = chartHeap sa ! r" using e2 rlt by (rule ext_chart)
  have dr: "Dims (chartHeap sb ! r) = [length (dimHeap s) ..< length (dimHeap s) + length (Dims v)]"
    using chr p(5) by simp
  have vr: "valid sa r" using rlt p(4,5) by (auto simp: valid_def valid_dims_def)
  have v1: "view sb r = deref s v" using ext_view [OF e2 vr] p(6) by simp
  have v2: "map (deref sa) vs = map (deref s) vs"
    using Cons.prems(2) p(2) by (auto intro: ext_deref)
  have o: "owned sb (length (chartHeap s)) (length (dimHeap s)) (r # rs)"
    using ow dr p(1,3,4) ext_length [OF e2] unfolding owned_def
    by (fastforce)
  show ?case using e len o v1 vw v2 cs s1 by simp
qed

lemma length_upd_all [simp]: "length (upd_all f h ds) = length h"
  unfolding upd_all_def by (induction ds arbitrary: h) auto

lemma upd_all_Cons: "upd_all f h (d # ds) = upd_all f (h[d := f (h ! d)]) ds"
  by (simp add: upd_all_def)

lemma nth_upd_all:
  "distinct ds \<Longrightarrow> x < length h \<Longrightarrow>
   upd_all f h ds ! x = (if x \<in> set ds then f (h ! x) else h ! x)"
proof (induction ds arbitrary: h)
  case Nil
  then show ?case by (simp add: upd_all_def)
next
  case (Cons d ds)
  then show ?case by (cases "x = d") (auto simp: upd_all_Cons)
qed

lemma foldl_upd_dim:
  "foldl (\<lambda>s d. upd_dim d f s) s ds = s\<lparr>dimHeap := upd_all f (dimHeap s) ds\<rparr>"
  by (induction ds arbitrary: s) (simp_all add: upd_all_def upd_dim_def)

lemma instantiateChart_eq:
  "instantiateChart dbname s c =
     s\<lparr>chartHeap := (chartHeap s)[c := fmtChart dbname (chartHeap s ! c)],
       dimHeap := upd_all (fmtDim dbname) (dimHeap s) (Dims (chartHeap s ! c))\<rparr>"
proof (cases "c < length (chartHeap s)")
  case True
  then show ?thesis
    by (simp add: instantiateChart_def upd_chart_def foldl_upd_dim fmtChart_def fmtDim_def [abs_def] Let_def)
next
  case False
  then show ?thesis
    by (simp add: list_update_beyond instantiateChart_def upd_chart_def foldl_upd_dim fmtChart_def fmtDim_def [abs_def] Let_def)
qed

lemma view_cong:
  assumes "chartHeap s' ! r = chartHeap s ! r"
    and "\<forall>x\<in>set (Dims (chartHeap s ! r)). dimHeap s' ! x = dimHeap s ! x"
  shows "view s' r = view s r"
proof -
  have "map ((!) (dimHeap s')) (Dims (chartHeap s ! r)) = map ((!) (dimHeap s)) (Dims (chartHeap s ! r))"
    using assms(2) by simp
  then show ?thesis using assms(1) by (simp only: view_def deref_def)
qed

lemma deref_fmt:
  assumes "Dims c' = Dims c" and "set_Dims c' [] = set_Dims (fmtChart dbname c) []"
    and "map ((!) h') (Dims c) = map (fmtDim dbname) (map ((!) h) (Dims c))"
  shows "set_Dims c' (map ((!) h') (Dims c')) = formatted dbname (set_Dims c (map ((!) h) (Dims c)))"
  using assms by (simp add: set_Dims_def formatted_def fmtChart_def)

lemma instantiateChart_step:
  assumes c: "c < length (chartHeap s)"
    and d: "distinct (Dims (chartHeap s ! c))"
    and v: "\<forall>x\<in>set (Dims (chartHeap s ! c)). x < length (dimHeap s)"
  shows "frame s (instantiateChart dbname s c) [c]"
    and "view (instantiateChart dbname s c) c = formatted dbname (view s c)"
proof -
  let ?s1 = "instantiateChart dbname s c"
  let ?ch = "chartHeap s ! c"
  have ch: "chartHeap ?s1 = (chartHeap s)[c := fmtChart dbname ?ch]"
    and dh: "dimHeap ?s1 = upd_all (fmtDim dbname) (dimHeap s) (Dims ?ch)"
    and rest: "baseCharts ?s1 = baseCharts s" "dbChartsTmpl ?s1 = dbChartsTmpl s"
      "charts ?s1 = charts s" "warnings ?s1 = warnings s"
    by (simp_all add: instantiateChart_eq)
  have dims: "Dims (chartHeap ?s1 ! r) = Dims (chartHeap s ! r)" if "r < length (chartHeap s)" for r
    using that by (cases "r = c") (simp_all add: ch fmtChart_def)
  have other: "chartHeap ?s1 ! r = chartHeap s ! r" if "r \<noteq> c" for r
    using that by (simp add: ch)
  have dfr: "dimHeap ?s1 ! x = dimHeap s ! x" if "x < length (dimHeap s)" "x \<notin> set (Dims ?ch)" for x
    using that d by (simp add: dh nth_upd_all)
  show "frame s ?s1 [c]"
    unfolding frame_def dimsOf_def using dims other dfr rest by (simp add: ch dh)
  have m: "map ((!) (dimHeap ?s1)) (Dims ?ch) = map (fmtDim dbname) (map ((!) (dimHeap s)) (Dims ?ch))"
    using d v by (simp add: dh nth_upd_all)
  have c1: "chartHeap ?s1 ! c = fmtChart dbname ?ch" using c by (simp add: ch)
  show "view ?s1 c = formatted dbname (view s c)"
    unfolding view_def deref_def
    by (rule deref_fmt) (simp_all add: c1 m fmtChart_def set_Dims_def)
qed

lemma owned_Cons:
  "owned s m n (c # cs) \<Longrightarrow>
     c < length (chartHeap s) \<and> m \<le> c \<and> c \<notin> set cs \<and> distinct (Dims (chartHeap s ! c)) \<and>
     (\<forall>x\<in>set (Dims (chartHeap s ! c)). n \<le> x \<and> x < length (dimHeap s)) \<and>
     set (Dims (chartHeap s ! c)) \<inter> dimsOf s cs = {} \<and> owned s m n cs"
  by (auto simp: owned_def dimsOf_def)

lemma owned_frame:
  assumes "owned s m n cs" and "frame s s' xs"
  shows "owned s' m n cs"
proof -
  have d: "Dims (chartHeap s' ! c) = Dims (chartHeap s ! c)" if "c \<in> set cs" for c
    using that assms by (auto simp: owned_def frame_def)
  then have m: "map (\<lambda>c. Dims (chartHeap s' ! c)) cs = map (\<lambda>c. Dims (chartHeap s ! c)) cs"
    by simp
  have "distinct (concat (map (\<lambda>c. Dims (chartHeap s' ! c)) cs))"
    unfolding m using assms(1) by (simp add: owned_def)
  moreover have "\<forall>c\<in>set cs. \<forall>d\<in>set (Dims (chartHeap s' ! c)). n \<le> d \<and> d < length (dimHeap s')"
    using assms(1,2) d by (simp add: owned_def frame_def)
  ultimately show ?thesis using assms(1,2)
    by (simp add: owned_def frame_def)
qed

lemma instantiate_all:
  "owned s m n cs \<Longrightarrow>
   frame s (foldl (instantiateChart dbname) s cs) cs \<and>
   map (view (foldl (instantiateChart dbname) s cs)) cs = map (\<lambda>c. formatted dbname (view s c)) cs"
proof (induction cs arbitrary: s)
  case Nil
  then show ?case by (simp add: frame_def)
next
  case (Cons c cs)
  let ?s1 = "instantiateChart dbname s c"
  let ?s2 = "foldl (instantiateChart dbname) ?s1 cs"
  note o = owned_Cons [OF Cons.prems]
  have f1: "frame s ?s1 [c]" and v1: "view ?s1 c = formatted dbname (view s c)"
    using instantiateChart_step [of c s dbname] o by auto
  have o1: "owned ?s1 m n cs"
    using o f1 by (auto intro: owned_frame)
  from Cons.IH [OF o1]
  have f2: "frame ?s1 ?s2 cs"
    and v2: "map (view ?s2) cs = map (\<lambda>c. formatted dbname (view ?s1 c)) cs" by auto
  have same: "chartHeap ?s1 ! r = chartHeap s ! r" if "r \<in> set cs" for r
    using that o f1 by (auto simp: frame_def owned_def)
  have d1: "dimsOf ?s1 cs = dimsOf s cs"
    using same by (simp add: dimsOf_def)
  have d2: "dimsOf s (c # cs) = set (Dims (chartHeap s ! c)) \<union> dimsOf s cs"
    by (simp add: dimsOf_def)
  have f: "frame s ?s2 (c # cs)"
    using f1 f2 unfolding frame_def d1 d2 by (simp add: dimsOf_def)
  have vc: "view ?s2 c = view ?s1 c"
  proof (rule view_cong)
    show "chartHeap ?s2 ! c = chartHeap ?s1 ! c"
      using f2 f1 o by (simp add: frame_def)
    have "Dims (chartHeap ?s1 ! c) = Dims (chartHeap s ! c)"
      using f1 o by (simp add: frame_def)
    then show "\<forall>x\<in>set (Dims (chartHeap ?s1 ! c)). dimHeap ?s2 ! x = dimHeap ?s1 ! x"
      using f2 f1 o d1 by (auto simp: frame_def)
  qed
  have vs: "view ?s1 r = view s r" if "r \<in> set cs" for r
  proof (rule view_cong)
    show "chartHeap ?s1 ! r = chartHeap s ! r" using that by (rule same)
    have "set (Dims (chartHeap s ! r)) \<subseteq> dimsOf s cs" using that by (auto simp: dimsOf_def)
    moreover have "\<forall>x\<in>set (Dims (chartHeap s ! r)). x < length (dimHeap s)"
      using that o by (auto simp: owned_def)
    moreover have "dimsOf s [c] = set (Dims (chartHeap s ! c))" by (simp add: dimsOf_def)
    moreover have "set (Dims (chartHeap s ! c)) \<inter> dimsOf s cs = {}" using o by simp
    ultimately have "\<forall>x\<in>set (Dims (chartHeap s ! r)). x < length (dimHeap s) \<and> x \<notin> dimsOf s [c]"
      by blast
    then show "\<forall>x\<in>set (Dims (chartHeap s ! r)). dimHeap ?s1 ! x = dimHeap s ! x"
      using f1 by (simp add: frame_def)
  qed
  have "map (view ?s2) (c # cs) = map (\<lambda>c. formatted dbname (view s c)) (c # cs)"
    using vc v1 v2 vs by simp
  then show ?case using f by simp
qed

lemma prefix_agree:
  assumes "prefix xs ys" and "length zs = length ys" and "\<forall>i<length xs. zs ! i = ys ! i"
  shows "prefix xs zs"
proof -
  have "length xs \<le> length zs" using assms(1,2) by (simp add: prefix_length_le)
  moreover have "\<forall>i<length xs. zs ! i = xs ! i" using assms(1,3) by (simp add: prefix_nth)
  ultimately have "take (length xs) zs = xs" by (auto intro: nth_equalityI)
  then show ?thesis by (metis take_is_prefix)
qed

lemma owned_dimsOf: "owned s m n cs \<Longrightarrow> x \<in> dimsOf s cs \<Longrightarrow> n \<le> x"
  by (auto simp: owned_def dimsOf_def)

lemma ext_frame:
  assumes e: "ext s s1" and o: "owned s1 (length (chartHeap s)) (length (dimHeap s)) cs"
    and f: "frame s1 s2 cs"
  shows "ext s s2"
proof -
  have l: "length (chartHeap s) \<le> length (chartHeap s1)" "length (dimHeap s) \<le> length (dimHeap s1)"
    using ext_length [OF e] by auto
  have "\<forall>i<length (chartHeap s). i \<notin> set cs" using o by (auto simp: owned_def)
  then have a: "\<forall>i<length (chartHeap s). chartHeap s2 ! i = chartHeap s1 ! i"
    using f l by (simp add: frame_def)
  have "\<forall>i<length (dimHeap s). i \<notin> dimsOf s1 cs" using owned_dimsOf [OF o] by fastforce
  then have b: "\<forall>i<length (dimHeap s). dimHeap s2 ! i = dimHeap s1 ! i"
    using f l by (simp add: frame_def)
  have "prefix (chartHeap s) (chartHeap s2)"
    using e f a by (auto simp: ext_def frame_def intro: prefix_agree)
  moreover have "prefix (dimHeap s) (dimHeap s2)"
    using e f b by (auto simp: ext_def frame_def intro: prefix_agree)
  ultimately show ?thesis using e f by (simp add: ext_def frame_def)
qed

lemma newDatabaseCharts_props:
  assumes v: "list_all (valid s) (dbChartsTmpl s)"
    and n: "newDatabaseCharts dbname s = (cs, s')"
  shows "map (view s') cs = map (\<lambda>r. formatted dbname (view s r)) (dbChartsTmpl s)"
    and "ext s s'"
    and "owned s' (length (chartHeap s)) (length (dimHeap s)) cs"
    and "length cs = length (dbChartsTmpl s)"
proof -
  let ?vs = "map ((!) (chartHeap s)) (dbChartsTmpl s)"
  obtain s1 where c: "Chart_Copies ?vs s = (cs, s1)"
    and s': "s' = foldl (instantiateChart dbname) s1 cs"
    using n by (auto simp: newDatabaseCharts_def Charts_Copy_def split: prod.splits)
  have vd: "\<forall>v\<in>set ?vs. valid_dims s v"
    using v by (auto simp: list_all_iff valid_def)
  from Chart_Copies_props [OF c vd]
  have e: "ext s s1" and len: "length cs = length (dbChartsTmpl s)"
    and o: "owned s1 (length (chartHeap s)) (length (dimHeap s)) cs"
    and vw: "map (view s1) cs = map (deref s) ?vs" by auto
  from instantiate_all [OF o, of dbname]
  have f: "frame s1 s' cs"
    and vf: "map (view s') cs = map (\<lambda>c. formatted dbname (view s1 c)) cs"
    by (auto simp: s')
  have "map (\<lambda>c. formatted dbname (view s1 c)) cs = map (formatted dbname) (map (view s1) cs)"
    by simp
  also have "\<dots> = map (formatted dbname) (map (deref s) ?vs)" by (simp only: vw)
  also have "\<dots> = map (\<lambda>r. formatted dbname (view s r)) (dbChartsTmpl s)"
    by (simp add: view_def)
  finally show "map (view s') cs = map (\<lambda>r. formatted dbname (view s r)) (dbChartsTmpl s)"
    using vf by simp
  show "ext s s'" using e o f by (rule ext_frame)
  show "owned s' (length (chartHeap s)) (length (dimHeap s)) cs"
    using o f by (rule owned_frame)
  show "length cs = length (dbChartsTmpl s)" by (rule len)
qed

lemma set_Dims_same: "set_Dims c (Dims c) = c"
  by (simp add: set_Dims_def)

lemma set_Dims_twice [simp]: "set_Dims (set_Dims c ds) es = set_Dims c es"
  by (simp add: set_Dims_def)

lemma owned_valid: "owned s m n cs \<Longrightarrow> list_all (valid s) cs"
  by (auto simp: owned_def list_all_iff valid_def valid_dims_def)

lemma newChartValue_props:
  assumes "newChartValue c s = (v, s1)"
  shows "ext s s1" and "valid_dims s1 v" and "deref s1 v = c"
  using assms map_nth_append_upt [of "dimHeap s" "Dims c"]
  by (auto simp: newChartValue_def ext_def valid_dims_def deref_def set_Dims_same)

lemma newChartValues_props:
  "newChartValues cs s = (vs, s1) \<Longrightarrow>
   ext s s1 \<and> (\<forall>v\<in>set vs. valid_dims s1 v) \<and> map (deref s1) vs = cs"
proof (induction cs arbitrary: s vs s1)
  case Nil
  then show ?case by (simp add: ext_refl)
next
  case (Cons c cs)
  obtain v sa where a: "newChartValue c s = (v, sa)" by (cases "newChartValue c s")
  obtain ws sb where b: "newChartValues cs sa = (ws, sb)" by (cases "newChartValues cs sa")
  from Cons.prems a b have vs: "vs = v # ws" and s1: "s1 = sb" by auto
  note p = newChartValue_props [OF a]
  from Cons.IH [OF b] have e: "ext sa sb" and vd: "\<forall>v\<in>set ws. valid_dims sb v"
    and dr: "map (deref sb) ws = cs" by auto
  have "ext s sb" using p(1) e by (rule ext_trans)
  moreover have "valid_dims sb v" using e p(2) by (rule ext_valid_dims)
  moreover have "deref sb v = c" using ext_deref [OF e p(2)] p(3) by simp
  ultimately show ?case using vd dr vs s1 by simp
qed

lemma view_upd_fields [simp]:
  "view (s\<lparr>baseCharts := x\<rparr>) = view s" "view (s\<lparr>dbChartsTmpl := x\<rparr>) = view s"
  "view (s\<lparr>charts := x\<rparr>) = view s" "view (s\<lparr>warnings := y\<rparr>) = view s"
  by (simp_all add: view_def deref_def fun_eq_iff)

lemma valid_upd_fields [simp]:
  "valid (s\<lparr>baseCharts := x\<rparr>) = valid s" "valid (s\<lparr>dbChartsTmpl := x\<rparr>) = valid s"
  "valid (s\<lparr>charts := x\<rparr>) = valid s" "valid (s\<lparr>warnings := y\<rparr>) = valid s"
  by (simp_all add: valid_def valid_dims_def fun_eq_iff)

lemma ext_views:
  assumes "ext s s'" and "list_all (valid s) rs"
  shows "list_all (valid s') rs" and "map (view s') rs = map (view s) rs"
  using assms by (auto simp: list_all_iff ext_valid ext_view)

lemma init_props:
  "tmpl_ok P (init P)" "base_ok P (init P)" "charts (init P) = []" "warnings (init P) = []"
proof -
  obtain bvs s1 where a: "newChartValues (baseCharts_values P) empty_State = (bvs, s1)"
    by (cases "newChartValues (baseCharts_values P) empty_State")
  obtain bs s2 where b: "Chart_Copies bvs s1 = (bs, s2)" by (cases "Chart_Copies bvs s1")
  let ?s2 = "s2\<lparr>baseCharts := bs\<rparr>"
  obtain dvs s3 where c: "newChartValues (dbChartsTmpl_values P) ?s2 = (dvs, s3)"
    by (cases "newChartValues (dbChartsTmpl_values P) ?s2")
  obtain ds s4 where d: "Chart_Copies dvs s3 = (ds, s4)" by (cases "Chart_Copies dvs s3")
  have i: "init P = s4\<lparr>dbChartsTmpl := ds\<rparr>" by (simp add: init_def a b c d)
  note pa = newChartValues_props [OF a]
  have pb: "ext s1 s2" "owned s2 (length (chartHeap s1)) (length (dimHeap s1)) bs"
    "map (view s2) bs = map (deref s1) bvs"
    using Chart_Copies_props [OF b] pa by auto
  note pc = newChartValues_props [OF c]
  have pd: "ext s3 s4" "owned s4 (length (chartHeap s3)) (length (dimHeap s3)) ds"
    "map (view s4) ds = map (deref s3) dvs"
    using Chart_Copies_props [OF d] pc by auto
  show "tmpl_ok P (init P)"
    using pd(2,3) pc by (simp add: tmpl_ok_def i owned_valid)
  have e: "ext ?s2 s4" using pc pd(1) by (blast intro: ext_trans)
  have "list_all (valid ?s2) bs \<and> map (view ?s2) bs = baseCharts_values P"
    using pb(2,3) pa by (simp add: owned_valid)
  then have "list_all (valid s4) bs \<and> map (view s4) bs = baseCharts_values P"
    using ext_views [OF e, of bs] by auto
  moreover have bc: "baseCharts s4 = bs" using e by (simp add: ext_def)
  ultimately show "base_ok P (init P)" by (simp add: base_ok_def i)
  have "charts s1 = []" "warnings s1 = []" using pa by (simp_all add: ext_def empty_State_def)
  then have "charts s2 = []" "warnings s2 = []" using pb(1) by (simp_all add: ext_def)
  then have "charts s4 = []" "warnings s4 = []" using e by (simp_all add: ext_def)
  then show "charts (init P) = []" "warnings (init P) = []" by (simp_all add: i)
qed

lemmas tmpl_defs = dbChartsTmpl_values_def dbTransactionsChartTmpl_def
  dbConnectionsUtilizationChartTmpl_def dbConnectionsChartTmpl_def dbBufferCacheChartTmpl_def
  dbReadOpsChartTmpl_def dbWriteOpsChartTmpl_def dbConflictsChartTmpl_def
  dbConflictsStatChartTmpl_def dbDeadlocksChartTmpl_def dbLocksHeldChartTmpl_def
  dbLocksAwaitedChartTmpl_def dbTempFilesChartTmpl_def dbTempFilesDataChartTmpl_def
  dbSizeChartTmpl_def Chart_zero_def Dim_zero_def

lemma directives_one:
  "directives f = [''%s''] \<Longrightarrow>
   \<exists>pre post. f = pre @ ''%s'' @ post \<and> CHR ''%'' \<notin> set pre \<and> CHR ''%'' \<notin> set post"
proof (induction f rule: directives.induct)
  case (1 c v fs)
  show ?case
  proof (cases "c = CHR ''%''")
    case True
    with 1 have v: "v = CHR ''s''" and d: "directives fs = []" by auto
    have "CHR ''%'' \<notin> set gs" if "directives gs = []" for gs
      using that by (induction gs rule: directives.induct) (auto split: if_splits)
    with d have "CHR ''%'' \<notin> set fs" by blast
    then have "c # v # fs = [] @ ''%s'' @ fs \<and> CHR ''%'' \<notin> set [] \<and> CHR ''%'' \<notin> set fs"
      using True v by simp
    then show ?thesis by blast
  next
    case False
    with 1 obtain pre post where "v # fs = pre @ ''%s'' @ post" "CHR ''%'' \<notin> set pre" "CHR ''%'' \<notin> set post"
      by auto
    then have "c # v # fs = (c # pre) @ ''%s'' @ post \<and> CHR ''%'' \<notin> set (c # pre) \<and> CHR ''%'' \<notin> set post"
      using False by simp
    then show ?thesis by blast
  qed
qed (auto split: if_splits)

lemma substitute_verb_s:
  "CHR ''%'' \<notin> set pre \<Longrightarrow> substitute d (pre @ ''%s'' @ post) = pre @ d @ post"
proof (induction pre)
  case Nil
  then show ?case by simp
next
  case (Cons a pre)
  then show ?case by (cases "pre @ ''%s'' @ post") auto
qed

lemma tmpl_directives:
  "\<forall>c\<in>set (dbChartsTmpl_values P). \<forall>f\<in>set (allIDs c). directives f = [''%s'']"
  by (simp add: tmpl_defs allIDs_def)

lemma tmpl_formatted:
  "map (formatted d) (dbChartsTmpl_values P) = map (instantiated d) (dbChartsTmpl_values P)"
  by (simp add: tmpl_defs formatted_def fmtChart_def fmtDim_def instantiated_def Sprintf_def)

lemma Sprintf_substitute:
  assumes "directives f = [''%s'']"
  shows "Sprintf f [d] = substitute d f"
proof -
  obtain pre post where f: "f = pre @ ''%s'' @ post"
    and p: "CHR ''%'' \<notin> set pre" "CHR ''%'' \<notin> set post"
    using directives_one [OF assms] by blast
  show ?thesis
    unfolding Sprintf_def f doPrintf_verb_s [OF p] substitute_verb_s [OF p(1)] by (rule refl)
qed

lemma formatted_instantiated:
  assumes "\<forall>f\<in>set (allIDs c). directives f = [''%s'']"
  shows "formatted d c = instantiated d c"
proof -
  have "Sprintf (Chart.ID c) [d] = substitute d (Chart.ID c)"
    using assms by (simp add: allIDs_def Sprintf_substitute)
  moreover have "map (fmtDim d) (Dims c) = map (\<lambda>x. x\<lparr>Dim.ID := substitute d (Dim.ID x)\<rparr>) (Dims c)"
    using assms by (simp add: allIDs_def Sprintf_substitute fmtDim_def)
  ultimately show ?thesis by (simp only: formatted_def fmtChart_def instantiated_def)
qed

lemma removeDatabaseCharts_eq:
  "removeDatabaseCharts dbname s =
     s\<lparr>chartHeap := mark_all (''db_'' @ dbname @ ''_'') (chartHeap s) (charts s)\<rparr>"
proof -
  have "foldl (\<lambda>s c. if HasPrefix (Chart.ID (chartHeap s ! c)) p
                       then MarkNotCreated c (MarkRemove c s) else s) s cs
        = s\<lparr>chartHeap := mark_all p (chartHeap s) cs\<rparr>" for p cs s
  proof (induction cs arbitrary: s)
    case Nil
    then show ?case by (simp add: mark_all_def)
  next
    case (Cons c cs)
    have "MarkNotCreated c (MarkRemove c s) = s\<lparr>chartHeap := (chartHeap s)[c := mark (chartHeap s ! c)]\<rparr>"
      by (cases "c < length (chartHeap s)")
         (simp_all add: MarkNotCreated_def MarkRemove_def upd_chart_def mark_def list_update_beyond)
    then show ?case using Cons.IH by (simp add: mark_all_def)
  qed
  then show ?thesis by (simp add: removeDatabaseCharts_def Sprintf_prefix)
qed

lemma length_mark_all [simp]: "length (mark_all p h cs) = length h"
  unfolding mark_all_def by (induction cs arbitrary: h) auto

lemma nth_mark_all:
  "r < length h \<Longrightarrow>
   mark_all p h cs ! r =
     (if r \<in> set cs \<and> HasPrefix (Chart.ID (h ! r)) p then mark (h ! r) else h ! r)"
proof (induction cs arbitrary: h)
  case Nil
  then show ?case by (simp add: mark_all_def)
next
  case (Cons c cs)
  define h1 where "h1 = (if HasPrefix (Chart.ID (h ! c)) p then h[c := mark (h ! c)] else h)"
  have step: "mark_all p h (c # cs) = mark_all p h1 cs" by (simp add: mark_all_def h1_def)
  have len: "r < length h1" using Cons.prems by (simp add: h1_def)
  have id: "Chart.ID (h1 ! r) = Chart.ID (h ! r)"
    using Cons.prems by (cases "r = c") (simp_all add: mark_def h1_def)
  have mk: "mark (h1 ! r) = mark (h ! r)"
    using Cons.prems by (cases "r = c") (simp_all add: mark_def h1_def)
  have h1: "h1 ! r = (if r = c \<and> HasPrefix (Chart.ID (h ! r)) p then mark (h ! r) else h ! r)"
    using Cons.prems by (cases "r = c") (simp_all add: h1_def)
  have "mark_all p h (c # cs) ! r =
      (if r \<in> set cs \<and> HasPrefix (Chart.ID (h ! r)) p then mark (h ! r) else h1 ! r)"
    by (simp only: step Cons.IH [OF len] id mk)
  then show ?case unfolding h1 by auto
qed

lemma generatedIDs_eq:
  "generatedIDs P d = map (\<lambda>t. ''db_'' @ d @ t)
     [''_transactions'', ''_connections_utilization'', ''_connections'', ''_buffer_cache'',
      ''_read_operations'', ''_write_operations'', ''_conflicts'', ''_conflicts_stat'',
      ''_deadlocks'', ''_locks_held'', ''_locks_awaited'', ''_temp_files'',
      ''_temp_files_data'', ''_size'']"
  by (simp add: generatedIDs_def tmpl_defs instantiated_def)

lemma distinct_generatedIDs: "distinct (generatedIDs P d)"
  by (simp add: generatedIDs_eq)


lemma length_generatedIDs: "length (generatedIDs P d) = 14"
  by (simp add: generatedIDs_eq)

lemma registeredIDs_heapIDs: "registeredIDs s = heapIDs s (charts s)"
  by (simp add: registeredIDs_def heapIDs_def)

lemma Charts_Add_ok:
  "distinct (heapIDs s cs) \<Longrightarrow> set (heapIDs s cs) \<inter> set (registeredIDs s) = {} \<Longrightarrow>
   Charts_Add cs s = (None, s\<lparr>charts := charts s @ cs\<rparr>)"
proof (induction cs arbitrary: s)
  case Nil
  then show ?case by simp
next
  case (Cons c cs)
  let ?s = "s\<lparr>charts := charts s @ [c]\<rparr>"
  have h: "heapIDs ?s cs = heapIDs s cs" by (simp add: heapIDs_def)
  have r: "registeredIDs ?s = registeredIDs s @ [Chart.ID (chartHeap s ! c)]"
    by (simp add: registeredIDs_def)
  have "distinct (heapIDs ?s cs)" using Cons.prems(1) by (simp add: h heapIDs_def)
  moreover have "set (heapIDs ?s cs) \<inter> set (registeredIDs ?s) = {}"
    using Cons.prems unfolding h r by (auto simp: heapIDs_def)
  ultimately have "Charts_Add cs ?s = (None, ?s\<lparr>charts := charts ?s @ cs\<rparr>)"
    by (rule Cons.IH)
  moreover have "Chart.ID (chartHeap s ! c) \<notin> set (registeredIDs s)"
    using Cons.prems(2) by (auto simp: heapIDs_def)
  ultimately show ?case by simp
qed

lemma Charts_Add_frame:
  "Charts_Add cs s = (e, s') \<Longrightarrow>
   chartHeap s' = chartHeap s \<and> dimHeap s' = dimHeap s \<and> baseCharts s' = baseCharts s \<and>
   dbChartsTmpl s' = dbChartsTmpl s \<and> warnings s' = warnings s \<and>
   (\<exists>k\<le>length cs. charts s' = charts s @ take k cs \<and> (e = None \<longrightarrow> k = length cs))"
proof (induction cs arbitrary: s)
  case Nil
  then show ?case by simp
next
  case (Cons c cs)
  show ?case
  proof (cases "Chart.ID (chartHeap s ! c) \<in> set (registeredIDs s)")
    case True
    with Cons.prems have "s' = s" "e \<noteq> None" by auto
    then have "charts s' = charts s @ take 0 (c # cs) \<and> (e = None \<longrightarrow> 0 = length (c # cs))"
      by simp
    then show ?thesis using \<open>s' = s\<close> by blast
  next
    case False
    with Cons.prems have "Charts_Add cs (s\<lparr>charts := charts s @ [c]\<rparr>) = (e, s')" by simp
    from Cons.IH [OF this] obtain k where k: "k \<le> length cs"
      "charts s' = (charts s @ [c]) @ take k cs" "e = None \<longrightarrow> k = length cs"
      and rest: "chartHeap s' = chartHeap s" "dimHeap s' = dimHeap s" "baseCharts s' = baseCharts s"
      "dbChartsTmpl s' = dbChartsTmpl s" "warnings s' = warnings s"
      by auto
    have "Suc k \<le> length (c # cs) \<and> charts s' = charts s @ take (Suc k) (c # cs) \<and>
       (e = None \<longrightarrow> Suc k = length (c # cs))"
      using k by simp
    then show ?thesis using rest by blast
  qed
qed

lemma heapIDs_views: "heapIDs s cs = map Chart.ID (map (view s) cs)"
  by (simp add: heapIDs_def view_def deref_def set_Dims_def)

lemma heapIDs_ext:
  "ext s s' \<Longrightarrow> list_all (\<lambda>c. c < length (chartHeap s)) cs \<Longrightarrow> heapIDs s' cs = heapIDs s cs"
  by (simp add: heapIDs_def list_all_iff ext_chart)

lemma new_heapIDs:
  assumes "tmpl_ok P s" and "newDatabaseCharts d s = (cs, s1)"
  shows "map (view s1) cs = map (instantiated d) (dbChartsTmpl_values P)"
    and "heapIDs s1 cs = generatedIDs P d"
proof -
  have v: "list_all (valid s) (dbChartsTmpl s)" and t: "map (view s) (dbChartsTmpl s) = dbChartsTmpl_values P"
    using assms(1) by (simp_all add: tmpl_ok_def)
  have "map (view s1) cs = map (formatted d) (map (view s) (dbChartsTmpl s))"
    using newDatabaseCharts_props(1) [OF v assms(2)] by simp
  also have "\<dots> = map (formatted d) (dbChartsTmpl_values P)" by (simp only: t)
  also have "\<dots> = map (instantiated d) (dbChartsTmpl_values P)"
    using tmpl_directives [of P] by (simp add: formatted_instantiated)
  finally show a: "map (view s1) cs = map (instantiated d) (dbChartsTmpl_values P)" .
  show "heapIDs s1 cs = generatedIDs P d"
    unfolding heapIDs_views a by (simp add: generatedIDs_def)
qed

lemma owned_bounds:
  "owned s m n cs \<Longrightarrow> list_all (\<lambda>c. m \<le> c \<and> c < length (chartHeap s)) cs"
  by (simp add: owned_def list_all_iff)

lemma new_inv:
  assumes t: "tmpl_ok P s" and n: "newDatabaseCharts d s = (cs, s1)"
  shows "ext s s1" and "tmpl_ok P s1"
    and "list_all (\<lambda>c. length (chartHeap s) \<le> c \<and> c < length (chartHeap s1)) cs"
    and "charts_ok s \<Longrightarrow> charts_ok s1 \<and> registeredIDs s1 = registeredIDs s"
    and "base_ok P s \<Longrightarrow> base_ok P s1"
proof -
  have v: "list_all (valid s) (dbChartsTmpl s)" using t by (simp add: tmpl_ok_def)
  note p = newDatabaseCharts_props [OF v n]
  show e: "ext s s1" by (rule p(2))
  have eq: "dbChartsTmpl s1 = dbChartsTmpl s" "baseCharts s1 = baseCharts s" "charts s1 = charts s"
    using e by (simp_all add: ext_def)
  show "tmpl_ok P s1"
    using t by (simp add: tmpl_ok_def eq ext_views [OF e v])
  show "list_all (\<lambda>c. length (chartHeap s) \<le> c \<and> c < length (chartHeap s1)) cs"
    using p(3) by (rule owned_bounds)
  show "charts_ok s1 \<and> registeredIDs s1 = registeredIDs s" if "charts_ok s"
    using that ext_length [OF e] heapIDs_ext [OF e, of "charts s"]
    by (auto simp: charts_ok_def list_all_iff eq registeredIDs_heapIDs)
  show "base_ok P s1" if "base_ok P s"
    using that by (simp add: base_ok_def eq ext_views [OF e])
qed

lemma add_ok:
  assumes t: "tmpl_ok P s" and c: "charts_ok s"
    and nc: "set (generatedIDs P d) \<inter> set (registeredIDs s) = {}"
    and n: "newDatabaseCharts d s = (cs, s1)"
  shows "addNewDatabaseCharts d s = s1\<lparr>charts := charts s @ cs\<rparr>"
    and "tmpl_ok P (addNewDatabaseCharts d s)"
    and "charts_ok (addNewDatabaseCharts d s)"
    and "registeredIDs (addNewDatabaseCharts d s) = registeredIDs s @ generatedIDs P d"
proof -
  note i = new_inv [OF t n]
  have ids: "heapIDs s1 cs = generatedIDs P d" using new_heapIDs(2) [OF t n] .
  have r: "registeredIDs s1 = registeredIDs s" and c1: "charts_ok s1" using i(4) [OF c] by auto
  have ch: "charts s1 = charts s" using i(1) by (simp add: ext_def)
  have "Charts_Add cs s1 = (None, s1\<lparr>charts := charts s1 @ cs\<rparr>)"
    using nc by (intro Charts_Add_ok) (simp_all add: ids r distinct_generatedIDs)
  then show a: "addNewDatabaseCharts d s = s1\<lparr>charts := charts s @ cs\<rparr>"
    by (simp add: addNewDatabaseCharts_def n ch)
  show "tmpl_ok P (addNewDatabaseCharts d s)"
    using i(2) by (simp add: a tmpl_ok_def)
  show "charts_ok (addNewDatabaseCharts d s)"
    using c1 i(3) by (auto simp: a charts_ok_def ch list_all_iff)
  show "registeredIDs (addNewDatabaseCharts d s) = registeredIDs s @ generatedIDs P d"
    using r ids by (simp add: a registeredIDs_def heapIDs_def ch)
qed


subsection \<open>The tables, evaluated\<close>

lemmas prio_defs = prioConnectionsUtilization_def prioConnectionsUsage_def prioCheckpoints_def
  prioCheckpointTime_def prioBGWriterBuffersAllocated_def prioBGWriterBuffersWritten_def
  prioBGWriterMaxWrittenClean_def prioBGWriterBackedFsync_def prioWALWrites_def prioWALFiles_def
  prioWALArchive_def prioAutovacuumWorkers_def prioAutovacuumPercentTowards_def
  prioTXIDWraparoundPercentTowards_def prioTXIDWraparoundOldestTXID_def
  prioCatalogRelationCount_def prioCatalogRelationSize_def prioUptime_def prioDBTransactions_def
  prioDBConnectionsUtilization_def prioDBConnections_def prioDBBufferCache_def
  prioDBReadOperations_def prioDBWriteOperations_def prioDBConflicts_def prioDBConflictsStat_def
  prioDBDeadlocks_def prioDBLocksHeld_def prioDBLocksAwaited_def prioDBTempFiles_def
  prioDBTempFilesData_def prioDBSize_def

lemmas base_defs = baseCharts_values_def serverConnectionsUtilizationChart_def
  serverConnectionsUsageChart_def checkpointsChart_def checkpointWriteChart_def
  bgWriterBuffersWrittenChart_def bgWriterBuffersAllocChart_def bgWriterMaxWrittenCleanChart_def
  bgWriterBuffersBackendFsyncChart_def walWritesChart_def walFilesChart_def
  walArchiveFilesChart_def autovacuumWorkersChart_def percentTowardsEmergencyAutovacuumChart_def
  percentTowardTXIDWraparoundChart_def oldestTXIDChart_def catalogRelationCountChart_def
  catalogRelationSizeChart_def serverUptimeChart_def Chart_zero_def Dim_zero_def

lemma priorities_eq: "priorities P = map (\<lambda>k. P + int k) [0..<32]"
  by (simp add: priorities_def prio_defs upt_rec numeral_eq_Suc) 

lemma base_priorities:
  "map Priority (baseCharts_values P) =
     map (\<lambda>k. P + int k) [0, 1, 2, 3, 5, 4, 6, 7, 8, 9, 10, 11, 12, 13, 14, 15, 16, 17]"
  by (simp add: base_defs prio_defs)

lemma tmpl_priorities:
  "map Priority (dbChartsTmpl_values P) = map (\<lambda>k. P + int k) [18..<32]"
  by (simp add: tmpl_defs prio_defs upt_rec numeral_eq_Suc)

lemma base_IDs:
  "map Chart.ID (baseCharts_values P) =
    [''connections_utilization'', ''connections_usage'', ''checkpoints'', ''checkpoint_time'',
     ''bgwriter_buffers_written'', ''bgwriter_buffers_alloc'', ''bgwriter_maxwritten_clean'',
     ''bgwriter_buffers_backend_fsync'', ''wal_writes'', ''wal_files'', ''wal_archive_files'',
     ''autovacuum_workers'', ''percent_towards_emergency_autovacuum'',
     ''percent_towards_txid_wraparound'', ''oldest_transaction_xid'', ''catalog_relation_count'',
     ''catalog_relation_size'', ''server_uptime'']"
  by (simp add: base_defs)

lemma distinct_base_IDs: "distinct (map Chart.ID (baseCharts_values P))"
  unfolding base_IDs by simp

lemma base_not_generated: "set (generatedIDs P d) \<inter> set (map Chart.ID (baseCharts_values Q)) = {}"
  unfolding base_IDs generatedIDs_eq by simp

section \<open>Instantiating the charts of a database\<close>

lemma length_tmpl: "length (dbChartsTmpl_values P) = 14"
  by (simp add: dbChartsTmpl_values_def)

lemma generatedIDs_views:
  "map (view s) cs = map (instantiated d) (dbChartsTmpl_values P) \<Longrightarrow>
   map (\<lambda>c. Chart.ID (view s c)) cs = generatedIDs P d"
proof -
  assume "map (view s) cs = map (instantiated d) (dbChartsTmpl_values P)"
  then have "map Chart.ID (map (view s) cs) = map Chart.ID (map (instantiated d) (dbChartsTmpl_values P))"
    by (simp only:)
  then show ?thesis by (simp add: generatedIDs_def comp_def)
qed

lemma map2_restore: "map2 (\<lambda>x y. x\<lparr>Dim.ID := Dim.ID y\<rparr>) (map (fmtDim d) ds) ds = ds"
  by (induction ds) (simp_all add: fmtDim_def)

lemma same_fields_formatted: "same_fields t (formatted d t)"
  by (simp add: same_fields_def restored_def formatted_def fmtChart_def map2_restore)
     (simp add: fmtDim_def)

text \<open>
  C1. In a store where \<open>dbChartsTmpl\<close> holds the 14 templates of the source,
  \<open>newDatabaseCharts d\<close> returns 14 charts; read out of the resulting store they are the
  templates, in order, with \<open>d\<close> substituted for \<open>%s\<close> in the chart ID and in every
  dimension ID and with the single label \<open>database = d\<close>.
\<close>

theorem newDatabaseCharts_instantiates:
  assumes "tmpl_ok P s" and "newDatabaseCharts d s = (cs, s')"
  shows "length cs = 14 \<and> map (view s') cs = map (instantiated d) (dbChartsTmpl_values P)"
proof -
  have m: "map (view s') cs = map (instantiated d) (dbChartsTmpl_values P)"
    using assms by (rule new_heapIDs(1))
  have "length cs = length (dbChartsTmpl_values P)" using m by (rule map_eq_imp_length_eq)
  then show ?thesis using m by (simp add: length_tmpl)
qed

theorem newDatabaseCharts_instantiates_witness:
  "tmpl_ok 70000 (init 70000) \<and>
   length (fst (newDatabaseCharts ''postgres'' (init 70000))) = 14 \<and>
   map (\<lambda>c. Chart.ID (view (snd (newDatabaseCharts ''postgres'' (init 70000))) c))
     (fst (newDatabaseCharts ''postgres'' (init 70000))) =
     [''db_postgres_transactions'', ''db_postgres_connections_utilization'',
      ''db_postgres_connections'', ''db_postgres_buffer_cache'', ''db_postgres_read_operations'',
      ''db_postgres_write_operations'', ''db_postgres_conflicts'', ''db_postgres_conflicts_stat'',
      ''db_postgres_deadlocks'', ''db_postgres_locks_held'', ''db_postgres_locks_awaited'',
      ''db_postgres_temp_files'', ''db_postgres_temp_files_data'', ''db_postgres_size''] \<and>
   Labels (view (snd (newDatabaseCharts ''postgres'' (init 70000)))
     (fst (newDatabaseCharts ''postgres'' (init 70000)) ! 0)) =
     [\<lparr>Key = ''database'', Value = ''postgres''\<rparr>] \<and>
   map Dim.ID (Dims (view (snd (newDatabaseCharts ''postgres'' (init 70000)))
     (fst (newDatabaseCharts ''postgres'' (init 70000)) ! 0))) =
     [''db_postgres_xact_commit'', ''db_postgres_xact_rollback'']"
proof -
  obtain cs s' where n: "newDatabaseCharts ''postgres'' (init 70000) = (cs, s')"
    by (cases "newDatabaseCharts ''postgres'' (init 70000)")
  have t: "tmpl_ok 70000 (init 70000)" by (rule init_props(1))
  from newDatabaseCharts_instantiates [OF t n]
  have l: "length cs = 14"
    and m: "map (view s') cs = map (instantiated ''postgres'') (dbChartsTmpl_values 70000)"
    by auto
  have i: "map (\<lambda>c. Chart.ID (view s' c)) cs = generatedIDs 70000 ''postgres''"
    using m by (rule generatedIDs_views)
  have "map (view s') cs ! 0 = map (instantiated ''postgres'') (dbChartsTmpl_values 70000) ! 0"
    by (simp only: m)
  then have "view s' (cs ! 0) = instantiated ''postgres'' (dbTransactionsChartTmpl 70000)"
    using l by (simp add: dbChartsTmpl_values_def)
  then have "Labels (view s' (cs ! 0)) = [\<lparr>Key = ''database'', Value = ''postgres''\<rparr>]"
    and "map Dim.ID (Dims (view s' (cs ! 0))) = [''db_postgres_xact_commit'', ''db_postgres_xact_rollback'']"
    by (simp_all add: instantiated_def dbTransactionsChartTmpl_def Chart_zero_def Dim_zero_def)
  then show ?thesis using t l i by (simp add: n generatedIDs_eq)
qed

text \<open>
  C7. \<open>newDatabaseCharts d\<close> leaves the template alone: \<open>dbChartsTmpl\<close> lists the same
  addresses, the charts read at them (IDs, labels, dimensions) are the same before and
  after, every chart and dimension object that existed before the call is untouched,
  and the returned charts and their dimensions are objects allocated by the call.
\<close>

theorem newDatabaseCharts_keeps_template:
  assumes "list_all (valid s) (dbChartsTmpl s)" and "newDatabaseCharts d s = (cs, s')"
  shows "dbChartsTmpl s' = dbChartsTmpl s \<and>
    map (view s') (dbChartsTmpl s') = map (view s) (dbChartsTmpl s) \<and>
    prefix (chartHeap s) (chartHeap s') \<and> prefix (dimHeap s) (dimHeap s') \<and>
    list_all (\<lambda>c. length (chartHeap s) \<le> c \<and>
       list_all (\<lambda>x. length (dimHeap s) \<le> x) (Dims (chartHeap s' ! c))) cs"
proof -
  note p = newDatabaseCharts_props [OF assms]
  have e: "dbChartsTmpl s' = dbChartsTmpl s" "prefix (chartHeap s) (chartHeap s')"
    "prefix (dimHeap s) (dimHeap s')"
    using p(2) by (simp_all add: ext_def)
  have v: "map (view s') (dbChartsTmpl s') = map (view s) (dbChartsTmpl s)"
    unfolding e(1) using p(2) assms(1) by (rule ext_views(2))
  have "list_all (\<lambda>c. length (chartHeap s) \<le> c \<and>
       list_all (\<lambda>x. length (dimHeap s) \<le> x) (Dims (chartHeap s' ! c))) cs"
    using p(3) by (simp add: owned_def list_all_iff)
  then show ?thesis using e v by simp
qed

theorem newDatabaseCharts_keeps_template_witness:
  "list_all (valid (init 70000)) (dbChartsTmpl (init 70000)) \<and>
   map (view (snd (newDatabaseCharts ''%s'' (init 70000)))) (dbChartsTmpl (init 70000)) =
     dbChartsTmpl_values 70000 \<and>
   prefix (chartHeap (init 70000)) (chartHeap (snd (newDatabaseCharts ''%s'' (init 70000))))"
proof -
  obtain cs s' where n: "newDatabaseCharts ''%s'' (init 70000) = (cs, s')"
    by (cases "newDatabaseCharts ''%s'' (init 70000)")
  have t: "list_all (valid (init 70000)) (dbChartsTmpl (init 70000))"
    and u: "map (view (init 70000)) (dbChartsTmpl (init 70000)) = dbChartsTmpl_values 70000"
    using init_props(1) [of 70000] by (simp_all add: tmpl_ok_def)
  from newDatabaseCharts_keeps_template [OF t n]
  have "dbChartsTmpl s' = dbChartsTmpl (init 70000)"
    and "map (view s') (dbChartsTmpl s') = map (view (init 70000)) (dbChartsTmpl (init 70000))"
    and "prefix (chartHeap (init 70000)) (chartHeap s')" by auto
  then show ?thesis using t u by (simp add: n)
qed

text \<open>
  C8. Each of the 14 charts returned by \<open>newDatabaseCharts d\<close> has the title, units,
  family, context, priority and render type of the template at the same position, as
  many dimensions with the same names and algorithms in the same order, and putting
  the template's chart ID, labels and dimension IDs back gives the template itself.
\<close>

theorem newDatabaseCharts_keeps_fields:
  assumes "tmpl_ok P s" and "newDatabaseCharts d s = (cs, s')"
  shows "length cs = 14 \<and> length (dbChartsTmpl_values P) = 14 \<and>
    list_all2 same_fields (dbChartsTmpl_values P) (map (view s') cs)"
proof -
  have v: "list_all (valid s) (dbChartsTmpl s)"
    and t: "map (view s) (dbChartsTmpl s) = dbChartsTmpl_values P"
    using assms(1) by (simp_all add: tmpl_ok_def)
  have "map (view s') cs = map (formatted d) (map (view s) (dbChartsTmpl s))"
    using newDatabaseCharts_props(1) [OF v assms(2)] by simp
  then have m: "map (view s') cs = map (formatted d) (dbChartsTmpl_values P)" by (simp only: t)
  have "list_all2 same_fields (dbChartsTmpl_values P) (map (formatted d) (dbChartsTmpl_values P))"
    by (simp add: list_all2_map2 list_all2_same same_fields_formatted)
  moreover have "length cs = length (dbChartsTmpl_values P)" using m by (rule map_eq_imp_length_eq)
  ultimately show ?thesis by (simp add: m length_tmpl)
qed

theorem newDatabaseCharts_keeps_fields_witness:
  "tmpl_ok 70000 (init 70000) \<and>
   Title (view (snd (newDatabaseCharts ''postgres'' (init 70000)))
     (fst (newDatabaseCharts ''postgres'' (init 70000)) ! 3)) = ''Database buffer cache'' \<and>
   Type (view (snd (newDatabaseCharts ''postgres'' (init 70000)))
     (fst (newDatabaseCharts ''postgres'' (init 70000)) ! 3)) = Area \<and>
   Priority (view (snd (newDatabaseCharts ''postgres'' (init 70000)))
     (fst (newDatabaseCharts ''postgres'' (init 70000)) ! 3)) = 70021 \<and>
   map Name (Dims (view (snd (newDatabaseCharts ''postgres'' (init 70000)))
     (fst (newDatabaseCharts ''postgres'' (init 70000)) ! 3))) = [''hit'', ''miss'']"
proof -
  obtain cs s' where n: "newDatabaseCharts ''postgres'' (init 70000) = (cs, s')"
    by (cases "newDatabaseCharts ''postgres'' (init 70000)")
  have t: "tmpl_ok 70000 (init 70000)" by (rule init_props(1))
  from newDatabaseCharts_keeps_fields [OF t n]
  have l: "length cs = 14"
    and a: "list_all2 same_fields (dbChartsTmpl_values 70000) (map (view s') cs)" by auto
  have "same_fields (dbChartsTmpl_values 70000 ! 3) (map (view s') cs ! 3)"
    by (rule list_all2_nthD [OF a]) (simp add: length_tmpl)
  then have "same_fields (dbBufferCacheChartTmpl 70000) (view s' (cs ! 3))"
    using l by (simp add: dbChartsTmpl_values_def)
  then show ?thesis using t
    by (simp add: n same_fields_def dbBufferCacheChartTmpl_def Chart_zero_def Dim_zero_def
        prioDBBufferCache_def)
qed

text \<open>
  C9. Every chart ID and dimension ID of the 14 templates has the single directive \<open>%s\<close>;
  a format with that single directive is \<open>pre @ ''%s'' @ post\<close> with no \<open>%\<close> in \<open>pre\<close> and
  \<open>post\<close>, and for every operand \<open>d\<close>, whatever bytes it has, \<open>Sprintf\<close> prints
  \<open>pre @ d @ post\<close>, which is the literal replacement; so the IDs that
  \<open>newDatabaseCharts d\<close> produces are the template IDs with \<open>%s\<close> replaced by \<open>d\<close>.
\<close>

theorem template_IDs_single_verb:
  "list_all (\<lambda>t. list_all (\<lambda>f. directives f = [''%s'']) (allIDs t)) (dbChartsTmpl_values P) \<and>
   (directives f = [''%s''] \<longrightarrow>
      (\<exists>pre post. f = pre @ ''%s'' @ post \<and> CHR ''%'' \<notin> set pre \<and> CHR ''%'' \<notin> set post \<and>
         Sprintf f [d] = pre @ d @ post \<and> substitute d f = pre @ d @ post)) \<and>
   (tmpl_ok P s \<and> newDatabaseCharts d s = (cs, s') \<longrightarrow>
      map (\<lambda>c. allIDs (view s' c)) cs =
        map (\<lambda>t. map (\<lambda>f. substitute d f) (allIDs t)) (dbChartsTmpl_values P))"
proof (intro conjI impI)
  show "list_all (\<lambda>t. list_all (\<lambda>f. directives f = [''%s'']) (allIDs t)) (dbChartsTmpl_values P)"
    using tmpl_directives [of P] by (simp add: list_all_iff)
next
  assume a: "directives f = [''%s'']"
  then obtain pre post where f: "f = pre @ ''%s'' @ post"
    and p: "CHR ''%'' \<notin> set pre" "CHR ''%'' \<notin> set post"
    using directives_one by blast
  have "Sprintf f [d] = pre @ d @ post"
    unfolding Sprintf_def f by (rule doPrintf_verb_s [OF p])
  moreover have "substitute d f = pre @ d @ post"
    unfolding f by (rule substitute_verb_s [OF p(1)])
  ultimately show "\<exists>pre post. f = pre @ ''%s'' @ post \<and> CHR ''%'' \<notin> set pre \<and>
      CHR ''%'' \<notin> set post \<and> Sprintf f [d] = pre @ d @ post \<and> substitute d f = pre @ d @ post"
    using f p by blast
next
  assume "tmpl_ok P s \<and> newDatabaseCharts d s = (cs, s')"
  then have "map (view s') cs = map (instantiated d) (dbChartsTmpl_values P)"
    using new_heapIDs(1) by blast
  then have "map allIDs (map (view s') cs) = map allIDs (map (instantiated d) (dbChartsTmpl_values P))"
    by (simp only:)
  then show "map (\<lambda>c. allIDs (view s' c)) cs =
      map (\<lambda>t. map (\<lambda>f. substitute d f) (allIDs t)) (dbChartsTmpl_values P)"
    by (simp add: comp_def allIDs_def instantiated_def)
qed

theorem template_IDs_single_verb_witness:
  "directives ''db_%s_xact_commit'' = [''%s''] \<and>
   Sprintf ''db_%s_xact_commit'' [''100%_x%d''] = ''db_100%_x%d_xact_commit'' \<and>
   tmpl_ok 70000 (init 70000) \<and>
   allIDs (view (snd (newDatabaseCharts ''100%'' (init 70000)))
     (fst (newDatabaseCharts ''100%'' (init 70000)) ! 0)) =
     [''db_100%_transactions'', ''db_100%_xact_commit'', ''db_100%_xact_rollback'']"
proof -
  obtain cs s' where n: "newDatabaseCharts ''100%'' (init 70000) = (cs, s')"
    by (cases "newDatabaseCharts ''100%'' (init 70000)")
  have t: "tmpl_ok 70000 (init 70000)" by (rule init_props(1))
  have d: "directives ''db_%s_xact_commit'' = [''%s'']" by simp
  from template_IDs_single_verb [of 70000 "''db_%s_xact_commit''" "''100%_x%d''"] d
  obtain pre post where "''db_%s_xact_commit'' = pre @ ''%s'' @ post" "CHR ''%'' \<notin> set pre"
    "CHR ''%'' \<notin> set post" "Sprintf ''db_%s_xact_commit'' [''100%_x%d''] = pre @ ''100%_x%d'' @ post"
    "substitute ''100%_x%d'' ''db_%s_xact_commit'' = pre @ ''100%_x%d'' @ post"
    by blast
  then have "Sprintf ''db_%s_xact_commit'' [''100%_x%d''] =
      substitute ''100%_x%d'' ''db_%s_xact_commit''"
    by (simp only:)
  then have a: "Sprintf ''db_%s_xact_commit'' [''100%_x%d''] = ''db_100%_x%d_xact_commit''"
    by simp
  from template_IDs_single_verb [of 70000 f "''100%''" "init 70000" cs s'] t n
  have m: "map (\<lambda>c. allIDs (view s' c)) cs =
      map (\<lambda>t. map (\<lambda>f. substitute ''100%'' f) (allIDs t)) (dbChartsTmpl_values 70000)"
    by blast
  have l: "length cs = 14" using map_eq_imp_length_eq [OF m] by (simp add: length_tmpl)
  have "map (\<lambda>c. allIDs (view s' c)) cs ! 0 =
      map (\<lambda>t. map (\<lambda>f. substitute ''100%'' f) (allIDs t)) (dbChartsTmpl_values 70000) ! 0"
    by (simp only: m)
  then have "allIDs (view s' (cs ! 0)) =
      [''db_100%_transactions'', ''db_100%_xact_commit'', ''db_100%_xact_rollback'']"
    using l by (simp add: dbChartsTmpl_values_def dbTransactionsChartTmpl_def allIDs_def
        Chart_zero_def Dim_zero_def)
  then show ?thesis using d a t by (simp add: n)
qed

text \<open>
  C6. Chart IDs are unique: in a store where \<open>baseCharts\<close> and \<open>dbChartsTmpl\<close> hold what
  initialisation gave them, the IDs of the 18 charts of \<open>baseCharts\<close> are pairwise
  distinct, and for every database name \<open>d\<close> the IDs of the 14 charts that
  \<open>newDatabaseCharts d\<close> returns are pairwise distinct and none of them is an ID of
  \<open>baseCharts\<close>.
\<close>

theorem chart_IDs_unique:
  assumes "tmpl_ok P s" and "base_ok P s" and "newDatabaseCharts d s = (cs, s')"
  shows "length (baseCharts s') = 18 \<and> distinct (heapIDs s' (baseCharts s')) \<and>
    length cs = 14 \<and> distinct (heapIDs s' cs) \<and>
    set (heapIDs s' cs) \<inter> set (heapIDs s' (baseCharts s')) = {}"
proof -
  have b: "base_ok P s'" using new_inv(5) [OF assms(1,3)] assms(2) by simp
  have bi: "heapIDs s' (baseCharts s') = map Chart.ID (baseCharts_values P)"
    unfolding heapIDs_views using b by (simp add: base_ok_def)
  have g: "heapIDs s' cs = generatedIDs P d" using assms(1,3) by (rule new_heapIDs(2))
  have "length (heapIDs s' (baseCharts s')) = 18" unfolding bi base_IDs by simp
  then have lb: "length (baseCharts s') = 18" by (simp add: heapIDs_def)
  have "length (heapIDs s' cs) = 14" unfolding g by (rule length_generatedIDs)
  then have lc: "length cs = 14" by (simp add: heapIDs_def)
  show ?thesis
    unfolding bi g using lb lc distinct_base_IDs distinct_generatedIDs base_not_generated
    by simp
qed

theorem chart_IDs_unique_witness:
  "tmpl_ok 70000 (init 70000) \<and> base_ok 70000 (init 70000) \<and>
   distinct (heapIDs (snd (newDatabaseCharts ''wal'' (init 70000)))
     (baseCharts (snd (newDatabaseCharts ''wal'' (init 70000))) @
      fst (newDatabaseCharts ''wal'' (init 70000)))) \<and>
   length (baseCharts (snd (newDatabaseCharts ''wal'' (init 70000))) @
      fst (newDatabaseCharts ''wal'' (init 70000))) = 32"
proof -
  obtain cs s' where n: "newDatabaseCharts ''wal'' (init 70000) = (cs, s')"
    by (cases "newDatabaseCharts ''wal'' (init 70000)")
  note i = init_props(1,2) [of 70000]
  from chart_IDs_unique [OF i n] show ?thesis
    using i by (auto simp: n heapIDs_def)
qed

section \<open>Registering and retiring the charts of a database\<close>

lemma remove_chart:
  "r < length (chartHeap s) \<Longrightarrow>
   chartHeap (removeDatabaseCharts d s) ! r =
     (if r \<in> set (charts s) \<and> prefix (''db_'' @ d @ ''_'') (Chart.ID (chartHeap s ! r))
      then mark (chartHeap s ! r) else chartHeap s ! r)"
  by (simp add: removeDatabaseCharts_eq nth_mark_all HasPrefix_iff)

lemma remove_charts [simp]: "charts (removeDatabaseCharts d s) = charts s"
  by (simp add: removeDatabaseCharts_eq)

lemma tmpl_unmarked:
  "\<forall>t\<in>set (dbChartsTmpl_values P). \<not> remove (instantiated d t) \<and> \<not> created (instantiated d t)"
  by (simp add: tmpl_defs instantiated_def)

lemma new_unmarked:
  assumes "tmpl_ok P s" and "newDatabaseCharts d s = (cs, s1)" and "c \<in> set cs"
  shows "\<not> remove (chartHeap s1 ! c)" and "\<not> created (chartHeap s1 ! c)"
proof -
  have "view s1 c \<in> set (map (view s1) cs)" using assms(3) by simp
  then have "view s1 c \<in> set (map (instantiated d) (dbChartsTmpl_values P))"
    using new_heapIDs(1) [OF assms(1,2)] by simp
  then have "\<not> remove (view s1 c) \<and> \<not> created (view s1 c)"
    using tmpl_unmarked [of P d] by auto
  then show "\<not> remove (chartHeap s1 ! c)" and "\<not> created (chartHeap s1 ! c)"
    by (simp_all add: view_def deref_def set_Dims_def)
qed

lemma Charts_Add_dup:
  assumes t: "tmpl_ok P s" and c: "charts_ok s"
    and dup: "hd (generatedIDs P d) \<in> set (registeredIDs s)"
    and n: "newDatabaseCharts d s = (cs, s1)"
  shows "Charts_Add cs s1 = (Some (ErrDuplicate (hd (generatedIDs P d))), s1)"
proof -
  note i = new_inv [OF t n]
  have ids: "heapIDs s1 cs = generatedIDs P d" using new_heapIDs(2) [OF t n] .
  have r: "registeredIDs s1 = registeredIDs s" using i(4) [OF c] by auto
  have "length cs = 14" using ids length_generatedIDs [of P d] by (metis heapIDs_def length_map)
  then obtain x xs where cs: "cs = x # xs" by (cases cs) auto
  have "Chart.ID (chartHeap s1 ! x) = hd (generatedIDs P d)"
    using ids by (simp add: cs heapIDs_def [abs_def]) (metis list.sel(1))
  then show ?thesis using dup by (simp add: cs r)
qed

lemma init_charts_ok: "charts_ok (init P)" "registeredIDs (init P) = []"
  by (simp_all add: charts_ok_def registeredIDs_def init_props)

lemma hd_generatedIDs: "hd (generatedIDs P d) \<in> set (generatedIDs P d)"
  by (simp add: generatedIDs_eq)

lemma add_then_remove:
  assumes t: "tmpl_ok P s" and c: "charts_ok s"
    and nc: "set (generatedIDs P d) \<inter> set (registeredIDs s) = {}"
    and n: "newDatabaseCharts d s = (cs, s1)"
    and p: "list_all (prefix (''db_'' @ e @ ''_'')) (generatedIDs P d)"
    and x: "x \<in> set cs"
  shows "x \<in> set (charts (removeDatabaseCharts e (addNewDatabaseCharts d s)))"
    and "\<not> remove (chartHeap (addNewDatabaseCharts d s) ! x)"
    and "remove (chartHeap (removeDatabaseCharts e (addNewDatabaseCharts d s)) ! x)"
    and "\<not> created (chartHeap (removeDatabaseCharts e (addNewDatabaseCharts d s)) ! x)"
proof -
  let ?s2 = "addNewDatabaseCharts d s"
  have a: "?s2 = s1\<lparr>charts := charts s @ cs\<rparr>" using add_ok(1) [OF t c nc n] .
  have xl: "x < length (chartHeap ?s2)"
    using new_inv(3) [OF t n] x by (simp add: a list_all_iff)
  have xc: "x \<in> set (charts ?s2)" using x by (simp add: a)
  have "Chart.ID (chartHeap s1 ! x) \<in> set (heapIDs s1 cs)" using x by (simp add: heapIDs_def)
  then have "prefix (''db_'' @ e @ ''_'') (Chart.ID (chartHeap s1 ! x))"
    using p new_heapIDs(2) [OF t n] by (simp add: list_all_iff)
  then have "chartHeap (removeDatabaseCharts e ?s2) ! x = mark (chartHeap ?s2 ! x)"
    using remove_chart [OF xl, of e] xc by (simp add: a)
  then show "remove (chartHeap (removeDatabaseCharts e ?s2) ! x)"
    and "\<not> created (chartHeap (removeDatabaseCharts e ?s2) ! x)"
    by (simp_all add: mark_def)
  show "x \<in> set (charts (removeDatabaseCharts e ?s2))" using xc by simp
  show "\<not> remove (chartHeap ?s2 ! x)" using new_unmarked(1) [OF t n x] by (simp add: a)
qed

lemma disjoint_generatedIDs_x:
  "set (generatedIDs P (d @ ''_x'')) \<inter> set (generatedIDs P d) = {}"
  by (simp add: generatedIDs_eq)

lemma prefix_generatedIDs_x:
  "list_all (prefix (''db_'' @ d @ ''_'')) (generatedIDs P (d @ ''_x''))"
  by (simp add: generatedIDs_eq)


lemma remove_length [simp]:
  "length (chartHeap (removeDatabaseCharts d s)) = length (chartHeap s)"
  by (simp add: removeDatabaseCharts_eq)



text \<open>
  C2. For every database name \<open>d\<close> and every store, \<open>removeDatabaseCharts d\<close> changes
  nothing but chart objects: the collection lists the same charts, no object is
  allocated or dropped, dimensions, package variables and log are the same; a chart
  is marked for removal and marked not created exactly when it is in the collection
  and its ID starts with \<open>''db_'' @ d @ ''_''\<close>, and every other chart is unchanged.
\<close>

theorem removeDatabaseCharts_marks_prefix:
  "charts (removeDatabaseCharts d s) = charts s \<and>
   length (chartHeap (removeDatabaseCharts d s)) = length (chartHeap s) \<and>
   dimHeap (removeDatabaseCharts d s) = dimHeap s \<and>
   baseCharts (removeDatabaseCharts d s) = baseCharts s \<and>
   dbChartsTmpl (removeDatabaseCharts d s) = dbChartsTmpl s \<and>
   warnings (removeDatabaseCharts d s) = warnings s \<and>
   (\<forall>r<length (chartHeap s).
      chartHeap (removeDatabaseCharts d s) ! r =
        (if r \<in> set (charts s) \<and> prefix (''db_'' @ d @ ''_'') (Chart.ID (chartHeap s ! r))
         then (chartHeap s ! r)\<lparr>remove := True, created := False\<rparr>
         else chartHeap s ! r))"
  by (simp add: removeDatabaseCharts_eq nth_mark_all HasPrefix_iff mark_def)

theorem removeDatabaseCharts_marks_prefix_witness:
  "remove (chartHeap (removeDatabaseCharts ''a'' example_State) ! 0) \<and>
   \<not> created (chartHeap (removeDatabaseCharts ''a'' example_State) ! 0) \<and>
   chartHeap (removeDatabaseCharts ''a'' example_State) ! 1 = chartHeap example_State ! 1 \<and>
   chartHeap (removeDatabaseCharts ''a'' example_State) ! 2 = chartHeap example_State ! 2 \<and>
   chartHeap (removeDatabaseCharts ''a'' example_State) ! 3 = chartHeap example_State ! 3 \<and>
   charts (removeDatabaseCharts ''a'' example_State) = [0, 1, 2] \<and>
   length (chartHeap (removeDatabaseCharts ''a'' example_State)) = 4"
proof -
  have l: "length (chartHeap example_State) = 4" and c: "charts example_State = [0, 1, 2]"
    by (simp_all add: example_State_def)
  have i: "Chart.ID (chartHeap example_State ! 0) = ''db_a_size''"
    "Chart.ID (chartHeap example_State ! Suc 0) = ''db_ab_size''"
    "Chart.ID (chartHeap example_State ! 2) = ''wal_files''"
    "Chart.ID (chartHeap example_State ! 3) = ''db_a_deadlocks''"
    by (simp_all add: example_State_def)
  note t = removeDatabaseCharts_marks_prefix [of "''a''" example_State]
  have "\<forall>r<4. chartHeap (removeDatabaseCharts ''a'' example_State) ! r =
        (if r \<in> {0, 1, 2} \<and> prefix ''db_a_'' (Chart.ID (chartHeap example_State ! r))
         then (chartHeap example_State ! r)\<lparr>remove := True, created := False\<rparr>
         else chartHeap example_State ! r)"
    using t by (simp add: l c)
  then have "chartHeap (removeDatabaseCharts ''a'' example_State) ! 0 =
      (chartHeap example_State ! 0)\<lparr>remove := True, created := False\<rparr>"
    and "chartHeap (removeDatabaseCharts ''a'' example_State) ! 1 = chartHeap example_State ! 1"
    and "chartHeap (removeDatabaseCharts ''a'' example_State) ! 2 = chartHeap example_State ! 2"
    and "chartHeap (removeDatabaseCharts ''a'' example_State) ! 3 = chartHeap example_State ! 3"
    by (simp_all add: i)
  then show ?thesis using t by (simp add: l c)
qed

text \<open>
  C5. \<open>addNewDatabaseCharts d\<close> instantiates 14 charts. When no registered chart has one
  of the IDs generated for \<open>d\<close>, all 14 are appended to the collection and nothing is
  logged. In every case the result is the store that \<open>Add\<close> left, and when \<open>Add\<close> returned
  an error, that store with the error appended to the log and nothing else changed:
  the function returns normally and hands no error to its caller.
\<close>

theorem addNewDatabaseCharts_registers:
  assumes "tmpl_ok P s" and "charts_ok s" and "newDatabaseCharts d s = (cs, s1)"
  shows "length cs = 14 \<and>
    (set (generatedIDs P d) \<inter> set (registeredIDs s) = {} \<longrightarrow>
       addNewDatabaseCharts d s = s1\<lparr>charts := charts s @ cs\<rparr> \<and>
       warnings (addNewDatabaseCharts d s) = warnings s) \<and>
    (case Charts_Add cs s1 of
       (None, s2) \<Rightarrow> addNewDatabaseCharts d s = s2
     | (Some e, s2) \<Rightarrow> addNewDatabaseCharts d s = s2\<lparr>warnings := warnings s2 @ [e]\<rparr> \<and>
         warnings s2 = warnings s \<and> chartHeap s2 = chartHeap s1 \<and> dimHeap s2 = dimHeap s1 \<and>
         baseCharts s2 = baseCharts s \<and> dbChartsTmpl s2 = dbChartsTmpl s)"
proof -
  note i = new_inv [OF assms(1,3)]
  have e: "warnings s1 = warnings s" "baseCharts s1 = baseCharts s"
    "dbChartsTmpl s1 = dbChartsTmpl s"
    using i(1) by (simp_all add: ext_def)
  have l: "length cs = 14"
    using new_heapIDs(2) [OF assms(1,3)] length_generatedIDs [of P d]
    by (metis heapIDs_def length_map)
  have ok: "addNewDatabaseCharts d s = s1\<lparr>charts := charts s @ cs\<rparr> \<and>
       warnings (addNewDatabaseCharts d s) = warnings s"
    if "set (generatedIDs P d) \<inter> set (registeredIDs s) = {}"
    using add_ok(1) [OF assms(1,2) that assms(3)] e by simp
  obtain r s2 where ad: "Charts_Add cs s1 = (r, s2)" by (cases "Charts_Add cs s1")
  have f: "chartHeap s2 = chartHeap s1" "dimHeap s2 = dimHeap s1" "baseCharts s2 = baseCharts s1"
    "dbChartsTmpl s2 = dbChartsTmpl s1" "warnings s2 = warnings s1"
    using Charts_Add_frame [OF ad] by auto
  have "case Charts_Add cs s1 of
       (None, s2) \<Rightarrow> addNewDatabaseCharts d s = s2
     | (Some e, s2) \<Rightarrow> addNewDatabaseCharts d s = s2\<lparr>warnings := warnings s2 @ [e]\<rparr> \<and>
         warnings s2 = warnings s \<and> chartHeap s2 = chartHeap s1 \<and> dimHeap s2 = dimHeap s1 \<and>
         baseCharts s2 = baseCharts s \<and> dbChartsTmpl s2 = dbChartsTmpl s"
    using f e by (cases r) (simp_all add: ad addNewDatabaseCharts_def assms(3) Warning_def)
  then show ?thesis using l ok by blast
qed

theorem addNewDatabaseCharts_registers_witness:
  "tmpl_ok 0 (init 0) \<and> charts_ok (init 0) \<and>
   charts (addNewDatabaseCharts ''a'' (init 0)) = fst (newDatabaseCharts ''a'' (init 0)) \<and>
   length (charts (addNewDatabaseCharts ''a'' (init 0))) = 14 \<and>
   warnings (addNewDatabaseCharts ''a'' (init 0)) = [] \<and>
   warnings (addNewDatabaseCharts ''a'' (addNewDatabaseCharts ''a'' (init 0))) =
     [ErrDuplicate ''db_a_transactions''] \<and>
   charts (addNewDatabaseCharts ''a'' (addNewDatabaseCharts ''a'' (init 0))) =
     charts (addNewDatabaseCharts ''a'' (init 0))"
proof -
  let ?s0 = "addNewDatabaseCharts ''a'' (init 0)"
  obtain cs s1 where n: "newDatabaseCharts ''a'' (init 0) = (cs, s1)"
    by (cases "newDatabaseCharts ''a'' (init 0)")
  obtain cs' s1' where n': "newDatabaseCharts ''a'' ?s0 = (cs', s1')"
    by (cases "newDatabaseCharts ''a'' ?s0")
  have nc: "set (generatedIDs 0 ''a'') \<inter> set (registeredIDs (init 0)) = {}"
    by (simp add: init_charts_ok)
  from addNewDatabaseCharts_registers [OF init_props(1) init_charts_ok(1) n] nc
  have a: "length cs = 14" "?s0 = s1\<lparr>charts := charts (init 0) @ cs\<rparr>"
    "warnings ?s0 = warnings (init 0)" by auto
  note k = add_ok [OF init_props(1) init_charts_ok(1) nc n]
  have dup: "hd (generatedIDs 0 ''a'') \<in> set (registeredIDs ?s0)"
    using hd_generatedIDs [of 0 "''a''"] by (simp add: k(4))
  have ad: "Charts_Add cs' s1' = (Some (ErrDuplicate (hd (generatedIDs 0 ''a''))), s1')"
    using Charts_Add_dup [OF k(2,3) dup n'] .
  have e: "charts s1' = charts ?s0" using new_inv(1) [OF k(2) n'] by (simp add: ext_def)
  from addNewDatabaseCharts_registers [OF k(2,3) n']
  have b: "addNewDatabaseCharts ''a'' ?s0 =
      s1'\<lparr>warnings := warnings s1' @ [ErrDuplicate (hd (generatedIDs 0 ''a''))]\<rparr>"
    "warnings s1' = warnings ?s0"
    by (simp_all add: ad)
  have h: "hd (generatedIDs 0 ''a'') = ''db_a_transactions''" by (simp add: generatedIDs_eq)
  have c0: "charts ?s0 = cs" "warnings ?s0 = []" using a(2,3) by (simp_all add: init_props)
  have "warnings (addNewDatabaseCharts ''a'' ?s0) = [ErrDuplicate ''db_a_transactions'']"
    "charts (addNewDatabaseCharts ''a'' ?s0) = charts ?s0"
    unfolding b(1) using b(2) c0 e h by simp_all
  then show ?thesis
    using init_props(1) [of 0] init_charts_ok(1) [of 0] a(1) c0 by (simp add: n)
qed




text \<open>
  C4. For every database name \<open>d\<close> the name \<open>d @ ''_x''\<close> is a different name, and after
  the charts of both are added to the initial store, \<open>removeDatabaseCharts d\<close> marks
  every one of the 14 charts instantiated for \<open>d @ ''_x''\<close>, none of which was marked
  before: \<open>''db_'' @ d @ ''_''\<close> is a prefix of the IDs generated for \<open>d @ ''_x''\<close>.
\<close>

theorem remove_marks_longer_name:
  "d @ ''_x'' \<noteq> d \<and>
   length (fst (newDatabaseCharts (d @ ''_x'') (addNewDatabaseCharts d (init P)))) = 14 \<and>
   list_all (\<lambda>c.
       c \<in> set (charts (removeDatabaseCharts d
         (addNewDatabaseCharts (d @ ''_x'') (addNewDatabaseCharts d (init P))))) \<and>
       \<not> remove (chartHeap
         (addNewDatabaseCharts (d @ ''_x'') (addNewDatabaseCharts d (init P))) ! c) \<and>
       remove (chartHeap (removeDatabaseCharts d
         (addNewDatabaseCharts (d @ ''_x'') (addNewDatabaseCharts d (init P)))) ! c))
     (fst (newDatabaseCharts (d @ ''_x'') (addNewDatabaseCharts d (init P))))"
proof -
  let ?s1 = "addNewDatabaseCharts d (init P)"
  obtain cs1 sa where n1: "newDatabaseCharts d (init P) = (cs1, sa)"
    by (cases "newDatabaseCharts d (init P)")
  obtain cs2 sb where n2: "newDatabaseCharts (d @ ''_x'') ?s1 = (cs2, sb)"
    by (cases "newDatabaseCharts (d @ ''_x'') ?s1")
  have nc1: "set (generatedIDs P d) \<inter> set (registeredIDs (init P)) = {}"
    by (simp add: init_charts_ok)
  note a = add_ok [OF init_props(1) init_charts_ok(1) nc1 n1]
  have nc2: "set (generatedIDs P (d @ ''_x'')) \<inter> set (registeredIDs ?s1) = {}"
    using disjoint_generatedIDs_x [of P d] by (simp add: a(4) init_charts_ok)
  have l: "length cs2 = 14"
    using new_heapIDs(2) [OF a(2) n2] length_generatedIDs [of P "d @ ''_x''"]
    by (metis heapIDs_def length_map)
  note r = add_then_remove [OF a(2,3) nc2 n2 prefix_generatedIDs_x]
  show ?thesis using l r(1,2,3) by (simp add: n2 list_all_iff)
qed

theorem remove_marks_longer_name_witness:
  "''a_x'' \<noteq> ''a'' \<and>
   length (fst (newDatabaseCharts ''a_x'' (addNewDatabaseCharts ''a'' (init 0)))) = 14 \<and>
   list_all (\<lambda>c. remove (chartHeap (removeDatabaseCharts ''a''
         (addNewDatabaseCharts ''a_x'' (addNewDatabaseCharts ''a'' (init 0)))) ! c))
     (fst (newDatabaseCharts ''a_x'' (addNewDatabaseCharts ''a'' (init 0))))"
  using remove_marks_longer_name [of "''a''" 0] by (simp add: list_all_iff)

section \<open>The priorities\<close>

text \<open>
  C10. The 32 priority constants are the consecutive values \<open>module.Priority + 0\<close>, ...,
  \<open>module.Priority + 31\<close>, pairwise distinct; \<open>baseCharts\<close> lists 18 charts and
  \<open>dbChartsTmpl\<close> 14, and the priorities of these 32 charts are pairwise distinct and are
  exactly the 32 constants: no two chart definitions of the file share a priority.
\<close>

theorem priorities_consecutive_distinct:
  "priorities P = map (\<lambda>k. P + int k) [0..<32] \<and> distinct (priorities P) \<and>
   length (baseCharts_values P) = 18 \<and> length (dbChartsTmpl_values P) = 14 \<and>
   distinct (map Priority (baseCharts_values P @ dbChartsTmpl_values P)) \<and>
   set (map Priority (baseCharts_values P @ dbChartsTmpl_values P)) = set (priorities P)"
proof -
  have inj: "inj_on (\<lambda>k. P + int k) A" for A by (simp add: inj_on_def)
  have d: "distinct (priorities P)"
    unfolding priorities_eq by (simp add: distinct_map inj)
  have l: "length (baseCharts_values P) = 18" "length (dbChartsTmpl_values P) = 14"
    by (simp_all add: baseCharts_values_def dbChartsTmpl_values_def)
  have m: "map Priority (baseCharts_values P @ dbChartsTmpl_values P) =
      map (\<lambda>k. P + int k) ([0, 1, 2, 3, 5, 4, 6, 7, 8, 9, 10, 11, 12, 13, 14, 15, 16, 17] @ [18..<32])"
    by (simp only: map_append base_priorities tmpl_priorities)
  have "distinct (map Priority (baseCharts_values P @ dbChartsTmpl_values P))"
    unfolding m by (simp add: distinct_map inj del: map_append upt_Suc)
  moreover have "set (map Priority (baseCharts_values P @ dbChartsTmpl_values P)) = set (priorities P)"
    unfolding m priorities_eq by (simp add: upt_rec numeral_eq_Suc insert_commute)
  ultimately show ?thesis using d l priorities_eq by blast
qed

end
